theory Spec2Isabelle
  imports Complex_Main "HOL-Library.Sublist"
begin

section \<open>Values of the program\<close>

text \<open>
  The scoring engine is Python. Its numbers (the \<open>int\<close>s and \<open>float\<close>s that the analyzers
  mix freely) are modelled as exact rationals: sums, products, comparisons and true
  division \<open>/\<close> are the rational ones, and the rounding error of binary floating point is
  outside the model. Division is only ever written below where the source guards it or
  where the failure is a branch of the model.

  Exceptions are values: a function that can raise returns \<open>exception + 'a\<close>.
\<close>

datatype exception = ZeroDivisionError | TypeError | ValueError | AttributeError

text \<open>\<open>d.get(key, default)\<close> on a key that may be absent: the field is an option.\<close>

definition get_default :: "'a option \<Rightarrow> 'a \<Rightarrow> 'a" where
  "get_default field dflt = (case field of None \<Rightarrow> dflt | Some v \<Rightarrow> v)"

text \<open>
  A reason is an f-string. The model keeps its literal text and each formatted value with
  its format specification; the rendering of the number into digits is not modelled.
\<close>

datatype piece = Lit string | Val rat string

type_synonym fstring = "piece list"

text \<open>
  The configuration dictionaries of \<open>config.py\<close>, keyed by strings as in the source.
  \<open>d[key]\<close> raises KeyError on a missing key; every subscript in the engine uses a literal
  key of its dictionary (lemmas \<open>TRANSACTION_THRESHOLDS_keys\<close> and the like), so the
  lookup below is only ever applied to present keys.
\<close>

definition getitem :: "(string \<times> 'a) list \<Rightarrow> string \<Rightarrow> 'a" where
  "getitem d k = the (map_of d k)"

definition RISK_WEIGHTS :: "(string \<times> rat) list" where
  "RISK_WEIGHTS =
    [(''transaction_patterns'', 25 / 100),
     (''protocol_interactions'', 30 / 100),
     (''asset_concentration'', 20 / 100),
     (''activity_frequency'', 15 / 100),
     (''failure_rate'', 10 / 100)]"

definition TRANSACTION_THRESHOLDS :: "(string \<times> rat) list" where
  "TRANSACTION_THRESHOLDS =
    [(''low_success_rate'', 7 / 10),
     (''moderate_success_rate'', 85 / 100),
     (''high_success_rate'', 95 / 100),
     (''high_activity_frequency'', 10),
     (''very_high_activity_frequency'', 20),
     (''low_activity_frequency'', 1 / 10),
     (''high_value_tx_ratio'', 3 / 10),
     (''very_high_value_tx_ratio'', 5 / 10),
     (''high_contract_ratio'', 7 / 10),
     (''very_high_contract_ratio'', 9 / 10),
     (''low_contract_ratio'', 1 / 10),
     (''recent_activity_threshold'', 50),
     (''inactive_days'', 30),
     (''high_gas_price'', 100),
     (''very_high_gas_price'', 200),
     (''low_address_diversity'', 1 / 10)]"

definition PROTOCOL_THRESHOLDS :: "(string \<times> rat) list" where
  "PROTOCOL_THRESHOLDS =
    [(''single_protocol_penalty'', 15),
     (''low_diversification_penalty'', 5),
     (''diversification_bonus'', 10),
     (''low_diversification_threshold'', 3),
     (''very_high_tvl'', 50000000000),
     (''high_tvl'', 10000000000),
     (''medium_tvl'', 1000000000),
     (''low_tvl'', 100000000),
     (''very_high_tvl_bonus'', 15),
     (''high_tvl_bonus'', 10),
     (''medium_tvl_bonus'', 5),
     (''low_tvl_penalty'', 15),
     (''very_high_risk_penalty'', 5)]"

definition ASSET_THRESHOLDS :: "(string \<times> rat) list" where
  "ASSET_THRESHOLDS =
    [(''single_token_penalty'', 20),
     (''low_diversification_penalty'', 10),
     (''good_diversification_bonus'', 5),
     (''high_diversification_bonus'', 10),
     (''low_diversification_count'', 3),
     (''good_diversification_count'', 10),
     (''very_large_eth_holdings'', 1000),
     (''large_eth_holdings'', 100),
     (''significant_eth_holdings'', 10),
     (''very_low_eth_balance'', 1 / 100),
     (''very_large_eth_penalty'', 25),
     (''large_eth_penalty'', 15),
     (''significant_eth_penalty'', 5),
     (''very_low_eth_penalty'', 10),
     (''stablecoin_bonus_max'', 15),
     (''stablecoin_bonus_per_token'', 5)]"

definition BEHAVIORAL_THRESHOLDS :: "(string \<times> rat) list" where
  "BEHAVIORAL_THRESHOLDS =
    [(''very_high_gas_price'', 200),
     (''high_gas_price'', 100),
     (''low_gas_price'', 20),
     (''very_high_gas_penalty'', 20),
     (''high_gas_penalty'', 10),
     (''low_gas_bonus'', 5),
     (''heavy_outflow_ratio'', 3),
     (''moderate_outflow_ratio'', 15 / 10),
     (''accumulation_ratio'', 2),
     (''heavy_outflow_penalty'', 20),
     (''moderate_outflow_penalty'', 5),
     (''accumulation_bonus'', 5),
     (''very_large_transaction'', 100),
     (''large_transaction'', 10),
     (''very_large_tx_penalty'', 15),
     (''large_tx_penalty'', 5),
     (''very_concentrated_interactions'', 1 / 10),
     (''concentrated_interactions'', 3 / 10),
     (''diverse_interactions'', 7 / 10),
     (''very_concentrated_penalty'', 15),
     (''concentrated_penalty'', 5),
     (''diverse_bonus'', 5),
     (''very_new_wallet_days'', 30),
     (''new_wallet_days'', 90),
     (''old_wallet_days'', 730),
     (''very_new_wallet_penalty'', 15),
     (''new_wallet_penalty'', 5),
     (''old_wallet_bonus'', 10)]"

text \<open>The numeric entries of \<open>LLM_CONFIG\<close> (the model name, a string, is left out).\<close>

definition LLM_CONFIG :: "(string \<times> rat) list" where
  "LLM_CONFIG =
    [(''temperature'', 1 / 10),
     (''max_output_tokens'', 500),
     (''timeout_seconds'', 30),
     (''rule_based_weight'', 6 / 10),
     (''llm_weight'', 4 / 10)]"

definition STABLECOIN_SYMBOLS :: "string list" where
  "STABLECOIN_SYMBOLS =
    [''usdt'', ''usdc'', ''dai'', ''busd'', ''frax'', ''tusd'', ''usdp'', ''gusd'']"

definition RISK_LEVEL_DESCRIPTIONS :: "(string \<times> string) list" where
  "RISK_LEVEL_DESCRIPTIONS =
    [(''VERY_HIGH'', ''Extremely risky wallet with multiple severe red flags''),
     (''HIGH'', ''High-risk wallet requiring significant caution''),
     (''MEDIUM'', ''Medium risk with some concerning factors''),
     (''LOW'', ''Low risk with generally safe behavior patterns''),
     (''VERY_LOW'', ''Very low risk, highly conservative wallet behavior'')]"

section \<open>The data model\<close>

text \<open>
  The three inputs are dictionaries built by the data clients. Each key the engine reads
  with \<open>.get\<close> is an optional field (\<open>None\<close>: the key is absent); nested dictionaries
  are nested records.
\<close>

record gas_analysis =
  total_gas_used :: "rat option"
  avg_gas_price :: "rat option"
  total_fees :: "rat option"

record time_analysis =
  first_transaction :: "rat option"
  last_transaction :: "rat option"
  activity_frequency :: "rat option"

record value_analysis =
  total_value_in :: "rat option"
  total_value_out :: "rat option"
  largest_transaction :: "rat option"
  avg_transaction_value :: "rat option"

record address_interactions =
  most_frequent_addresses :: "(string \<times> rat) list option"
  interaction_diversity :: "rat option"

record patterns =
  error :: "string option"
  total_transactions :: "rat option"
  successful_transactions :: "rat option"
  failed_transactions :: "rat option"
  unique_addresses :: "rat option"
  contract_interactions :: "rat option"
  high_value_transactions :: "rat option"
  recent_activity :: "rat option"
  gas_analysis :: "gas_analysis option"
  time_analysis :: "time_analysis option"
  value_analysis :: "value_analysis option"
  address_interactions :: "address_interactions option"

text \<open>A value stored under a key of a \<open>metrics\<close> dictionary.\<close>

datatype metric = MNum rat | MStr string | MDict "(string \<times> rat) list"

text \<open>
  The dictionary an analyzer returns. \<open>risk_score\<close> and \<open>reasons\<close> are keys of every
  returned dictionary; \<open>metrics\<close> is \<open>None\<close> where the returned dictionary has no such key.
\<close>

record component_result =
  risk_score :: rat
  reasons :: "fstring list"
  metrics :: "(string \<times> metric) list option"

section \<open>TransactionPatternAnalyzer (components/transaction\_patterns.py)\<close>

definition TransactionPatternAnalyzer_analyze_success_rate ::
  "patterns \<Rightarrow> rat \<Rightarrow> rat \<Rightarrow> fstring list \<Rightarrow> rat \<times> fstring list" where
  "TransactionPatternAnalyzer_analyze_success_rate p total_txs score rs =
    (let success_txs = get_default (successful_transactions p) 0;
         success_rate = (if total_txs > 0 then success_txs / total_txs else 0)
     in if success_rate < getitem TRANSACTION_THRESHOLDS ''low_success_rate''
        then (score + 25, rs @ [[Lit ''Low success rate: '', Val success_rate ''.1%'']])
        else if success_rate < getitem TRANSACTION_THRESHOLDS ''moderate_success_rate''
        then (score + 10,
              rs @ [[Lit ''Moderate success rate: '', Val success_rate ''.1%'']])
        else if success_rate > getitem TRANSACTION_THRESHOLDS ''high_success_rate''
        then (score - 10, rs @ [[Lit ''High success rate: '', Val success_rate ''.1%'']])
        else (score, rs))"

definition TransactionPatternAnalyzer_analyze_activity_frequency ::
  "patterns \<Rightarrow> rat \<Rightarrow> fstring list \<Rightarrow> rat \<times> fstring list" where
  "TransactionPatternAnalyzer_analyze_activity_frequency p score rs =
    (let frequency =
           get_default
             (activity_frequency
               (get_default (time_analysis p)
                 \<lparr>first_transaction = None, last_transaction = None, activity_frequency = None\<rparr>))
             0
     in if frequency > getitem TRANSACTION_THRESHOLDS ''very_high_activity_frequency''
        then (score + 15,
              rs @ [[Lit ''Very high activity: '', Val frequency ''.1f'', Lit '' tx/day'']])
        else if frequency > getitem TRANSACTION_THRESHOLDS ''high_activity_frequency''
        then (score + 5,
              rs @ [[Lit ''High activity: '', Val frequency ''.1f'', Lit '' tx/day'']])
        else if frequency < getitem TRANSACTION_THRESHOLDS ''low_activity_frequency''
        then (score + 15,
              rs @ [[Lit ''Very low activity: '', Val frequency ''.3f'', Lit '' tx/day'']])
        else if 1 \<le> frequency \<and> frequency \<le> 5
        then (score - 5,
              rs @ [[Lit ''Normal activity: '', Val frequency ''.1f'', Lit '' tx/day'']])
        else (score, rs))"

definition TransactionPatternAnalyzer_analyze_high_value_transactions ::
  "patterns \<Rightarrow> rat \<Rightarrow> rat \<Rightarrow> fstring list \<Rightarrow> rat \<times> fstring list" where
  "TransactionPatternAnalyzer_analyze_high_value_transactions p total_txs score rs =
    (let high_value_txs = get_default (high_value_transactions p) 0;
         high_value_ratio = (if total_txs > 0 then high_value_txs / total_txs else 0)
     in if high_value_ratio > getitem TRANSACTION_THRESHOLDS ''very_high_value_tx_ratio''
        then (score + 15,
              rs @ [[Lit ''High value transaction ratio: '', Val high_value_ratio ''.1%'']])
        else if high_value_ratio > getitem TRANSACTION_THRESHOLDS ''high_value_tx_ratio''
        then (score + 5,
              rs @ [[Lit ''Moderate high-value transactions: '', Val high_value_ratio ''.1%'']])
        else (score, rs))"

definition TransactionPatternAnalyzer_analyze_contract_interactions ::
  "patterns \<Rightarrow> rat \<Rightarrow> rat \<Rightarrow> fstring list \<Rightarrow> rat \<times> fstring list" where
  "TransactionPatternAnalyzer_analyze_contract_interactions p total_txs score rs =
    (let contract_interactions' = get_default (contract_interactions p) 0;
         contract_ratio = (if total_txs > 0 then contract_interactions' / total_txs else 0)
     in if contract_ratio > getitem TRANSACTION_THRESHOLDS ''very_high_contract_ratio''
        then (score + 15,
              rs @ [[Lit ''Very high DeFi usage: '', Val contract_ratio ''.1%'']])
        else if contract_ratio > getitem TRANSACTION_THRESHOLDS ''high_contract_ratio''
        then (score + 5, rs @ [[Lit ''High DeFi usage: '', Val contract_ratio ''.1%'']])
        else if contract_ratio < getitem TRANSACTION_THRESHOLDS ''low_contract_ratio''
        then (score - 5, rs @ [[Lit ''Low DeFi usage: '', Val contract_ratio ''.1%'']])
        else (score, rs))"

definition TransactionPatternAnalyzer_analyze_recent_activity ::
  "patterns \<Rightarrow> rat \<Rightarrow> rat \<Rightarrow> fstring list \<Rightarrow> rat \<times> fstring list" where
  "TransactionPatternAnalyzer_analyze_recent_activity p total_txs score rs =
    (let recent_activity' = get_default (recent_activity p) 0
     in if recent_activity' = 0 \<and> total_txs > 10
        then (score + 20,
              rs @ [[Lit ''No recent activity ('',
                          Val (getitem TRANSACTION_THRESHOLDS ''inactive_days'') '''',
                          Lit '' days)'']])
        else if recent_activity' > getitem TRANSACTION_THRESHOLDS ''recent_activity_threshold''
        then (score + 10,
              rs @ [[Lit ''Very active recently: '', Val recent_activity' '''', Lit '' txs'']])
        else (score, rs))"

definition TransactionPatternAnalyzer_analyze_gas_usage ::
  "patterns \<Rightarrow> rat \<Rightarrow> fstring list \<Rightarrow> rat \<times> fstring list" where
  "TransactionPatternAnalyzer_analyze_gas_usage p score rs =
    (let avg_gas_price' =
           get_default
             (avg_gas_price
               (get_default (gas_analysis p)
                 \<lparr>total_gas_used = None, avg_gas_price = None, total_fees = None\<rparr>))
             0
     in if avg_gas_price' > getitem TRANSACTION_THRESHOLDS ''high_gas_price''
        then (score + 10,
              rs @ [[Lit ''High gas prices: '', Val avg_gas_price' ''.1f'', Lit '' Gwei'']])
        else (score, rs))"

definition TransactionPatternAnalyzer_analyze_address_diversity ::
  "patterns \<Rightarrow> rat \<Rightarrow> rat \<Rightarrow> fstring list \<Rightarrow> rat \<times> fstring list" where
  "TransactionPatternAnalyzer_analyze_address_diversity p total_txs score rs =
    (let unique_addresses' = get_default (unique_addresses p) 0
     in if total_txs > 0
        then (let address_diversity = unique_addresses' / total_txs
              in if address_diversity < getitem TRANSACTION_THRESHOLDS ''low_address_diversity''
                 then (score + 10,
                       rs @ [[Lit ''Low address diversity: '', Val address_diversity ''.2f'']])
                 else (score, rs))
        else (score, rs))"

definition TransactionPatternAnalyzer_calculate_risk :: "patterns \<Rightarrow> component_result" where
  "TransactionPatternAnalyzer_calculate_risk p =
    (if error p \<noteq> None
     then \<lparr>risk_score = 90, reasons = [[Lit ''No transaction data available'']], metrics = None\<rparr>
     else
       let total_txs = get_default (total_transactions p) 0
       in if total_txs = 0
          then \<lparr>risk_score = 90, reasons = [[Lit ''Inactive wallet - no transactions'']],
                metrics = None\<rparr>
          else
            let (score, rs) =
                  TransactionPatternAnalyzer_analyze_success_rate p total_txs 50 [];
                (score, rs) =
                  TransactionPatternAnalyzer_analyze_activity_frequency p score rs;
                (score, rs) =
                  TransactionPatternAnalyzer_analyze_high_value_transactions p total_txs
                    score rs;
                (score, rs) =
                  TransactionPatternAnalyzer_analyze_contract_interactions p total_txs
                    score rs;
                (score, rs) =
                  TransactionPatternAnalyzer_analyze_recent_activity p total_txs score rs;
                (score, rs) =
                  TransactionPatternAnalyzer_analyze_gas_usage p score rs;
                (score, rs) =
                  TransactionPatternAnalyzer_analyze_address_diversity p total_txs
                    score rs;
                success_txs = get_default (successful_transactions p) 0;
                success_rate = (if total_txs > 0 then success_txs / total_txs else 0);
                frequency =
                  get_default
                    (activity_frequency
                      (get_default (time_analysis p)
                        \<lparr>first_transaction = None, last_transaction = None,
                         activity_frequency = None\<rparr>))
                    0;
                high_value_txs = get_default (high_value_transactions p) 0;
                high_value_ratio = (if total_txs > 0 then high_value_txs / total_txs else 0);
                contract_interactions' = get_default (contract_interactions p) 0;
                contract_ratio = (if total_txs > 0 then contract_interactions' / total_txs else 0);
                recent_activity' = get_default (recent_activity p) 0
            in \<lparr>risk_score = max 0 (min 100 score),
                reasons = rs,
                metrics = Some
                  [(''success_rate'', MNum success_rate),
                   (''activity_frequency'', MNum frequency),
                   (''high_value_ratio'', MNum high_value_ratio),
                   (''contract_interaction_ratio'', MNum contract_ratio),
                   (''recent_activity'', MNum recent_activity')]\<rparr>)"

section \<open>ProtocolRiskAnalyzer (components/protocol\_risk.py)\<close>

text \<open>
  A protocol entry is \<open>(name, risk_score, tvl, category, chains)\<close>; the analyzer only asks
  whether the list of entries is empty.
\<close>

type_synonym protocol_info = "string \<times> rat \<times> rat \<times> string \<times> string list"

record protocol_analysis =
  protocols :: "protocol_info list option"
  average_risk :: "rat option"
  raw_average_risk :: "rat option"
  high_risk_protocols :: "rat option"
  total_tvl_interacted :: "rat option"
  diversification_score :: "rat option"
  categories :: "string list option"
  total_protocols :: "rat option"
  concentration_penalty :: "rat option"
  risk_distribution :: "(string \<times> rat) list option"

text \<open>
  The division by \<open>total_protocols\<close> is not guarded in the source: with a positive
  \<open>high_risk_protocols\<close> and \<open>total_protocols = 0\<close> Python raises ZeroDivisionError.
\<close>

definition ProtocolRiskAnalyzer_analyze_high_risk_protocols ::
  "protocol_analysis \<Rightarrow> rat \<Rightarrow> fstring list \<Rightarrow> exception + rat \<times> fstring list" where
  "ProtocolRiskAnalyzer_analyze_high_risk_protocols pa score rs =
    (let high_risk_count = get_default (high_risk_protocols pa) 0;
         total_protocols' = get_default (total_protocols pa) 1
     in if high_risk_count > 0
        then (if total_protocols' = 0 then Inl ZeroDivisionError
              else let high_risk_ratio = high_risk_count / total_protocols';
                       penalty = min (high_risk_ratio * 30) 30
                   in Inr (score + penalty,
                           rs @ [[Lit ''High-risk protocols: '', Val high_risk_count '''',
                                  Lit ''/'', Val total_protocols' '''']]))
        else Inr (score, rs))"

definition ProtocolRiskAnalyzer_analyze_diversification ::
  "protocol_analysis \<Rightarrow> rat \<Rightarrow> fstring list \<Rightarrow> rat \<times> fstring list" where
  "ProtocolRiskAnalyzer_analyze_diversification pa score rs =
    (let diversification = get_default (diversification_score pa) 1
     in if diversification = 1
        then (score + getitem PROTOCOL_THRESHOLDS ''single_protocol_penalty'',
              rs @ [[Lit ''Single protocol category'']])
        else if diversification < getitem PROTOCOL_THRESHOLDS ''low_diversification_threshold''
        then (score + getitem PROTOCOL_THRESHOLDS ''low_diversification_penalty'',
              rs @ [[Lit ''Low diversification: '', Val diversification '''',
                     Lit '' categories'']])
        else (score - getitem PROTOCOL_THRESHOLDS ''diversification_bonus'',
              rs @ [[Lit ''Good diversification: '', Val diversification '''',
                     Lit '' categories'']]))"

definition ProtocolRiskAnalyzer_analyze_tvl_factor ::
  "protocol_analysis \<Rightarrow> rat \<Rightarrow> fstring list \<Rightarrow> rat \<times> fstring list" where
  "ProtocolRiskAnalyzer_analyze_tvl_factor pa score rs =
    (let total_tvl = get_default (total_tvl_interacted pa) 0
     in if total_tvl > getitem PROTOCOL_THRESHOLDS ''very_high_tvl''
        then (score - getitem PROTOCOL_THRESHOLDS ''very_high_tvl_bonus'',
              rs @ [[Lit ''Very high TVL protocols: $'', Val (total_tvl / 1000000000) ''.1f'',
                     Lit ''B'']])
        else if total_tvl > getitem PROTOCOL_THRESHOLDS ''high_tvl''
        then (score - getitem PROTOCOL_THRESHOLDS ''high_tvl_bonus'',
              rs @ [[Lit ''High TVL protocols: $'', Val (total_tvl / 1000000000) ''.1f'',
                     Lit ''B'']])
        else if total_tvl > getitem PROTOCOL_THRESHOLDS ''medium_tvl''
        then (score - getitem PROTOCOL_THRESHOLDS ''medium_tvl_bonus'',
              rs @ [[Lit ''Medium TVL protocols: $'', Val (total_tvl / 1000000000) ''.1f'',
                     Lit ''B'']])
        else if total_tvl < getitem PROTOCOL_THRESHOLDS ''low_tvl''
        then (score + getitem PROTOCOL_THRESHOLDS ''low_tvl_penalty'',
              rs @ [[Lit ''Low TVL protocols: $'', Val (total_tvl / 1000000) ''.1f'',
                     Lit ''M'']])
        else (score, rs))"

definition ProtocolRiskAnalyzer_analyze_concentration ::
  "protocol_analysis \<Rightarrow> rat \<Rightarrow> fstring list \<Rightarrow> rat \<times> fstring list" where
  "ProtocolRiskAnalyzer_analyze_concentration pa score rs =
    (let concentration_penalty' = get_default (concentration_penalty pa) 0
     in if concentration_penalty' > 0
        then (score, rs @ [[Lit ''Protocol concentration risk'']])
        else (score, rs))"

definition ProtocolRiskAnalyzer_analyze_risk_distribution ::
  "protocol_analysis \<Rightarrow> rat \<Rightarrow> fstring list \<Rightarrow> rat \<times> fstring list" where
  "ProtocolRiskAnalyzer_analyze_risk_distribution pa score rs =
    (let risk_dist = get_default (risk_distribution pa) [];
         very_high_count = get_default (map_of risk_dist ''very_high'') 0
     in if very_high_count > 0
        then (score + very_high_count * getitem PROTOCOL_THRESHOLDS ''very_high_risk_penalty'',
              rs @ [[Lit ''Very high-risk protocols: '', Val very_high_count '''']])
        else (score, rs))"

text \<open>
  The first test of the source, \<open>not protocol_analysis or "protocols" not in
  protocol_analysis\<close>, is the test that the key is absent: the empty dictionary is the
  record whose fields are all \<open>None\<close>.
\<close>

definition ProtocolRiskAnalyzer_calculate_risk ::
  "protocol_analysis \<Rightarrow> exception + component_result" where
  "ProtocolRiskAnalyzer_calculate_risk pa =
    (case protocols pa of
       None \<Rightarrow>
         Inr \<lparr>risk_score = 0,
              reasons = [[Lit ''No DeFi protocol interactions detected - Low Risk'']],
              metrics = Some []\<rparr>
     | Some protocols' \<Rightarrow>
         if protocols' = []
         then Inr \<lparr>risk_score = 0,
                   reasons = [[Lit ''No DeFi protocol interactions - Low Risk'']],
                   metrics = Some []\<rparr>
         else
           let avg_risk = get_default (raw_average_risk pa) 50
           in (case ProtocolRiskAnalyzer_analyze_high_risk_protocols pa avg_risk [] of
                Inl e \<Rightarrow> Inl e
              | Inr (score, rs) \<Rightarrow>
                  let (score, rs) = ProtocolRiskAnalyzer_analyze_diversification pa score rs;
                      (score, rs) = ProtocolRiskAnalyzer_analyze_tvl_factor pa score rs;
                      (score, rs) = ProtocolRiskAnalyzer_analyze_concentration pa score rs;
                      (score, rs) = ProtocolRiskAnalyzer_analyze_risk_distribution pa score rs;
                      high_risk_count = get_default (high_risk_protocols pa) 0;
                      total_protocols' = get_default (total_protocols pa) 1;
                      diversification = get_default (diversification_score pa) 1;
                      total_tvl = get_default (total_tvl_interacted pa) 0;
                      risk_dist = get_default (risk_distribution pa) []
                  in Inr \<lparr>risk_score = max 0 (min 100 score),
                          reasons = rs,
                          metrics = Some
                            [(''average_protocol_risk'', MNum avg_risk),
                             (''high_risk_protocol_ratio'',
                              MNum (if total_protocols' > 0
                                    then high_risk_count / total_protocols' else 0)),
                             (''diversification_score'', MNum diversification),
                             (''total_tvl'', MNum total_tvl),
                             (''risk_distribution'', MDict risk_dist)]\<rparr>))"

section \<open>AssetConcentrationAnalyzer (components/asset\_concentration.py)\<close>

text \<open>
  A token holding is a dictionary from strings to strings (\<open>contract_address\<close>,
  \<open>token_name\<close>, \<open>token_symbol\<close>, \<open>token_decimal\<close>, \<open>last_transaction\<close>). The
  \<open>quicknode_data\<close> entry of the balance data is never read by the engine and is left out.
\<close>

type_synonym token = "(string \<times> string) list"

record balances =
  eth_balance :: "rat option"
  tokens :: "token list option"

text \<open>
  The characters of the model are the code points below 256. \<open>str.lower()\<close> changes
  the letters A to Z and the capital letters from 192 to 222 (215, the multiplication
  sign, is not one), each to the code point 32 above. \<open>substring_in sub s\<close> is the
  test \<open>sub in s\<close>.
\<close>

definition lower_char :: "char \<Rightarrow> char" where
  "lower_char c =
    (let n = (of_char c :: nat)
     in if (65 \<le> n \<and> n \<le> 90) \<or> (192 \<le> n \<and> n \<le> 222 \<and> n \<noteq> 215)
        then char_of (n + 32) else c)"

definition lower :: "string \<Rightarrow> string" where
  "lower s = map lower_char s"

fun substring_in :: "string \<Rightarrow> string \<Rightarrow> bool" where
  "substring_in sub [] = (sub = [])"
| "substring_in sub (c # s) = (prefix sub (c # s) \<or> substring_in sub s)"

definition AssetConcentrationAnalyzer_analyze_diversification ::
  "rat \<Rightarrow> rat \<Rightarrow> rat \<Rightarrow> fstring list \<Rightarrow> rat \<times> fstring list" where
  "AssetConcentrationAnalyzer_analyze_diversification eth_balance' token_count score rs =
    (if token_count = 0
     then (if eth_balance' > 0
           then (score - 15, rs @ [[Lit ''ETH-only portfolio (conservative)'']])
           else (score + 30, rs @ [[Lit ''No significant assets detected'']]))
     else if token_count = 1
     then (score + getitem ASSET_THRESHOLDS ''single_token_penalty'',
           rs @ [[Lit ''Single token concentration'']])
     else if token_count < getitem ASSET_THRESHOLDS ''low_diversification_count''
     then (score + getitem ASSET_THRESHOLDS ''low_diversification_penalty'',
           rs @ [[Lit ''Low diversification: '', Val token_count '''', Lit '' tokens'']])
     else if token_count < getitem ASSET_THRESHOLDS ''good_diversification_count''
     then (score - getitem ASSET_THRESHOLDS ''good_diversification_bonus'',
           rs @ [[Lit ''Good diversification: '', Val token_count '''', Lit '' tokens'']])
     else (score - getitem ASSET_THRESHOLDS ''high_diversification_bonus'',
           rs @ [[Lit ''High diversification: '', Val token_count '''', Lit '' tokens'']]))"

definition AssetConcentrationAnalyzer_analyze_eth_holdings ::
  "rat \<Rightarrow> rat \<Rightarrow> fstring list \<Rightarrow> rat \<times> fstring list" where
  "AssetConcentrationAnalyzer_analyze_eth_holdings eth_balance' score rs =
    (if eth_balance' > getitem ASSET_THRESHOLDS ''very_large_eth_holdings''
     then (score + getitem ASSET_THRESHOLDS ''very_large_eth_penalty'',
           rs @ [[Lit ''Very large ETH holdings: '', Val eth_balance' ''.2f'', Lit '' ETH'']])
     else if eth_balance' > getitem ASSET_THRESHOLDS ''large_eth_holdings''
     then (score + getitem ASSET_THRESHOLDS ''large_eth_penalty'',
           rs @ [[Lit ''Large ETH holdings: '', Val eth_balance' ''.2f'', Lit '' ETH'']])
     else if eth_balance' > getitem ASSET_THRESHOLDS ''significant_eth_holdings''
     then (score + getitem ASSET_THRESHOLDS ''significant_eth_penalty'',
           rs @ [[Lit ''Significant ETH holdings: '', Val eth_balance' ''.2f'', Lit '' ETH'']])
     else if eth_balance' < getitem ASSET_THRESHOLDS ''very_low_eth_balance''
     then (score + getitem ASSET_THRESHOLDS ''very_low_eth_penalty'',
           rs @ [[Lit ''Very low ETH balance'']])
     else (score, rs))"

definition AssetConcentrationAnalyzer_analyze_token_composition ::
  "token list \<Rightarrow> rat \<Rightarrow> fstring list \<Rightarrow> rat \<times> fstring list" where
  "AssetConcentrationAnalyzer_analyze_token_composition tokens' score rs =
    (if tokens' = [] then (score, rs)
     else
       let stablecoin_count =
             (of_nat (length (filter
                (\<lambda>token. list_ex
                   (\<lambda>stable. substring_in stable
                      (lower (get_default (map_of token ''token_symbol'') '''')))
                   STABLECOIN_SYMBOLS)
                tokens')) :: rat)
       in if stablecoin_count > 0
          then let bonus = min (stablecoin_count
                                 * getitem ASSET_THRESHOLDS ''stablecoin_bonus_per_token'')
                               (getitem ASSET_THRESHOLDS ''stablecoin_bonus_max'')
               in (score - bonus,
                   rs @ [[Lit ''Stablecoin exposure: '', Val stablecoin_count '''',
                          Lit '' tokens'']])
          else (score, rs))"

definition AssetConcentrationAnalyzer_get_diversification_level :: "rat \<Rightarrow> string" where
  "AssetConcentrationAnalyzer_get_diversification_level token_count =
    (if token_count > getitem ASSET_THRESHOLDS ''good_diversification_count'' then ''high''
     else if token_count > getitem ASSET_THRESHOLDS ''low_diversification_count'' then ''medium''
     else if token_count > 0 then ''low''
     else ''none'')"

definition AssetConcentrationAnalyzer_calculate_risk :: "balances \<Rightarrow> component_result" where
  "AssetConcentrationAnalyzer_calculate_risk b =
    (let eth_balance' = get_default (eth_balance b) 0;
         tokens' = get_default (tokens b) [];
         token_count = (of_nat (length tokens') :: rat);
         (score, rs) =
           AssetConcentrationAnalyzer_analyze_diversification eth_balance' token_count 50 [];
         (score, rs) = AssetConcentrationAnalyzer_analyze_eth_holdings eth_balance' score rs;
         (score, rs) = AssetConcentrationAnalyzer_analyze_token_composition tokens' score rs;
         diversification_level = AssetConcentrationAnalyzer_get_diversification_level token_count
     in \<lparr>risk_score = max 0 (min 100 score),
         reasons = rs,
         metrics = Some
           [(''eth_balance'', MNum eth_balance'),
            (''token_count'', MNum token_count),
            (''asset_diversification'', MStr diversification_level)]\<rparr>)"

section \<open>BehavioralPatternAnalyzer (components/behavioral\_patterns.py)\<close>

definition BehavioralPatternAnalyzer_analyze_gas_patterns ::
  "patterns \<Rightarrow> rat \<Rightarrow> fstring list \<Rightarrow> rat \<times> fstring list" where
  "BehavioralPatternAnalyzer_analyze_gas_patterns p score rs =
    (let gas_analysis' =
           get_default (gas_analysis p)
             \<lparr>total_gas_used = None, avg_gas_price = None, total_fees = None\<rparr>;
         avg_gas_price' = get_default (avg_gas_price gas_analysis') 0
     in if avg_gas_price' > getitem BEHAVIORAL_THRESHOLDS ''very_high_gas_price''
        then (score + getitem BEHAVIORAL_THRESHOLDS ''very_high_gas_penalty'',
              rs @ [[Lit ''Very high gas usage: '', Val avg_gas_price' ''.1f'', Lit '' Gwei'']])
        else if avg_gas_price' > getitem BEHAVIORAL_THRESHOLDS ''high_gas_price''
        then (score + getitem BEHAVIORAL_THRESHOLDS ''high_gas_penalty'',
              rs @ [[Lit ''High gas usage: '', Val avg_gas_price' ''.1f'', Lit '' Gwei'']])
        else if avg_gas_price' < getitem BEHAVIORAL_THRESHOLDS ''low_gas_price''
        then (score - getitem BEHAVIORAL_THRESHOLDS ''low_gas_bonus'',
              rs @ [[Lit ''Efficient gas usage: '', Val avg_gas_price' ''.1f'', Lit '' Gwei'']])
        else (score, rs))"

definition BehavioralPatternAnalyzer_analyze_value_flow ::
  "patterns \<Rightarrow> rat \<Rightarrow> fstring list \<Rightarrow> rat \<times> fstring list" where
  "BehavioralPatternAnalyzer_analyze_value_flow p score rs =
    (let value_analysis' =
           get_default (value_analysis p)
             \<lparr>total_value_in = None, total_value_out = None, largest_transaction = None,
              avg_transaction_value = None\<rparr>;
         value_in = get_default (total_value_in value_analysis') 0;
         value_out = get_default (total_value_out value_analysis') 0
     in if value_out > value_in * getitem BEHAVIORAL_THRESHOLDS ''heavy_outflow_ratio''
        then (score + getitem BEHAVIORAL_THRESHOLDS ''heavy_outflow_penalty'',
              rs @ [[Lit ''Heavy fund outflow pattern'']])
        else if value_out > value_in * getitem BEHAVIORAL_THRESHOLDS ''moderate_outflow_ratio''
        then (score + getitem BEHAVIORAL_THRESHOLDS ''moderate_outflow_penalty'',
              rs @ [[Lit ''Moderate outflow pattern'']])
        else if value_in > value_out * getitem BEHAVIORAL_THRESHOLDS ''accumulation_ratio''
        then (score - getitem BEHAVIORAL_THRESHOLDS ''accumulation_bonus'',
              rs @ [[Lit ''Accumulation pattern'']])
        else (score, rs))"

definition BehavioralPatternAnalyzer_analyze_transaction_sizes ::
  "patterns \<Rightarrow> rat \<Rightarrow> fstring list \<Rightarrow> rat \<times> fstring list" where
  "BehavioralPatternAnalyzer_analyze_transaction_sizes p score rs =
    (let value_analysis' =
           get_default (value_analysis p)
             \<lparr>total_value_in = None, total_value_out = None, largest_transaction = None,
              avg_transaction_value = None\<rparr>;
         largest_tx = get_default (largest_transaction value_analysis') 0
     in if largest_tx > getitem BEHAVIORAL_THRESHOLDS ''very_large_transaction''
        then (score + getitem BEHAVIORAL_THRESHOLDS ''very_large_tx_penalty'',
              rs @ [[Lit ''Very large transaction: '', Val largest_tx ''.2f'', Lit '' ETH'']])
        else if largest_tx > getitem BEHAVIORAL_THRESHOLDS ''large_transaction''
        then (score + getitem BEHAVIORAL_THRESHOLDS ''large_tx_penalty'',
              rs @ [[Lit ''Large transaction: '', Val largest_tx ''.2f'', Lit '' ETH'']])
        else (score, rs))"

definition BehavioralPatternAnalyzer_analyze_interaction_diversity ::
  "patterns \<Rightarrow> rat \<Rightarrow> fstring list \<Rightarrow> rat \<times> fstring list" where
  "BehavioralPatternAnalyzer_analyze_interaction_diversity p score rs =
    (let address_interactions' =
           get_default (address_interactions p)
             \<lparr>most_frequent_addresses = None, interaction_diversity = None\<rparr>;
         interaction_diversity' = get_default (interaction_diversity address_interactions') 0;
         total_txs = get_default (total_transactions p) 1
     in if total_txs > 0
        then (let diversity_ratio = interaction_diversity' / total_txs
              in if diversity_ratio
                    < getitem BEHAVIORAL_THRESHOLDS ''very_concentrated_interactions''
                 then (score + getitem BEHAVIORAL_THRESHOLDS ''very_concentrated_penalty'',
                       rs @ [[Lit ''Very concentrated interactions'']])
                 else if diversity_ratio
                         < getitem BEHAVIORAL_THRESHOLDS ''concentrated_interactions''
                 then (score + getitem BEHAVIORAL_THRESHOLDS ''concentrated_penalty'',
                       rs @ [[Lit ''Somewhat concentrated interactions'']])
                 else if diversity_ratio > getitem BEHAVIORAL_THRESHOLDS ''diverse_interactions''
                 then (score - getitem BEHAVIORAL_THRESHOLDS ''diverse_bonus'',
                       rs @ [[Lit ''Diverse interaction pattern'']])
                 else (score, rs))
        else (score, rs))"

text \<open>
  \<open>if first_tx and last_tx\<close>: both timestamps are present and neither is \<open>None\<close> nor zero.
\<close>

definition timestamps :: "patterns \<Rightarrow> (rat \<times> rat) option" where
  "timestamps p =
    (let time_analysis' =
           get_default (time_analysis p)
             \<lparr>first_transaction = None, last_transaction = None, activity_frequency = None\<rparr>
     in case (first_transaction time_analysis', last_transaction time_analysis') of
          (Some first_tx, Some last_tx) \<Rightarrow>
            if first_tx \<noteq> 0 \<and> last_tx \<noteq> 0 then Some (first_tx, last_tx) else None
        | _ \<Rightarrow> None)"

definition BehavioralPatternAnalyzer_analyze_wallet_lifecycle ::
  "patterns \<Rightarrow> rat \<Rightarrow> fstring list \<Rightarrow> rat \<times> fstring list" where
  "BehavioralPatternAnalyzer_analyze_wallet_lifecycle p score rs =
    (case timestamps p of
       Some (first_tx, last_tx) \<Rightarrow>
         let wallet_age_days = (last_tx - first_tx) / (24 * 60 * 60)
         in if wallet_age_days < getitem BEHAVIORAL_THRESHOLDS ''very_new_wallet_days''
            then (score + getitem BEHAVIORAL_THRESHOLDS ''very_new_wallet_penalty'',
                  rs @ [[Lit ''Very new wallet (<30 days)'']])
            else if wallet_age_days < getitem BEHAVIORAL_THRESHOLDS ''new_wallet_days''
            then (score + getitem BEHAVIORAL_THRESHOLDS ''new_wallet_penalty'',
                  rs @ [[Lit ''New wallet (<90 days)'']])
            else if wallet_age_days > getitem BEHAVIORAL_THRESHOLDS ''old_wallet_days''
            then (score - getitem BEHAVIORAL_THRESHOLDS ''old_wallet_bonus'',
                  rs @ [[Lit ''Established wallet (>2 years)'']])
            else (score, rs)
     | None \<Rightarrow> (score, rs))"

definition BehavioralPatternAnalyzer_calculate_risk :: "patterns \<Rightarrow> component_result" where
  "BehavioralPatternAnalyzer_calculate_risk p =
    (if error p \<noteq> None
     then \<lparr>risk_score = 60, reasons = [[Lit ''Unable to analyze behavior'']], metrics = Some []\<rparr>
     else
       let (score, rs) = BehavioralPatternAnalyzer_analyze_gas_patterns p 50 [];
           (score, rs) = BehavioralPatternAnalyzer_analyze_value_flow p score rs;
           (score, rs) = BehavioralPatternAnalyzer_analyze_transaction_sizes p score rs;
           (score, rs) = BehavioralPatternAnalyzer_analyze_interaction_diversity p score rs;
           (score, rs) = BehavioralPatternAnalyzer_analyze_wallet_lifecycle p score rs;
           gas_analysis' =
             get_default (gas_analysis p)
               \<lparr>total_gas_used = None, avg_gas_price = None, total_fees = None\<rparr>;
           avg_gas_price' = get_default (avg_gas_price gas_analysis') 0;
           value_analysis' =
             get_default (value_analysis p)
               \<lparr>total_value_in = None, total_value_out = None, largest_transaction = None,
                avg_transaction_value = None\<rparr>;
           value_in = get_default (total_value_in value_analysis') 0;
           value_out = get_default (total_value_out value_analysis') 0;
           largest_tx = get_default (largest_transaction value_analysis') 0;
           address_interactions' =
             get_default (address_interactions p)
               \<lparr>most_frequent_addresses = None, interaction_diversity = None\<rparr>;
           interaction_diversity' = get_default (interaction_diversity address_interactions') 0;
           total_txs = get_default (total_transactions p) 1;
           diversity_ratio = (if total_txs > 0 then interaction_diversity' / total_txs else 0);
           value_flow_ratio = value_out / max value_in 1;
           wallet_age_days =
             (case timestamps p of
                Some (first_tx, last_tx) \<Rightarrow> (last_tx - first_tx) / (24 * 60 * 60)
              | None \<Rightarrow> 0)
       in \<lparr>risk_score = max 0 (min 100 score),
           reasons = rs,
           metrics = Some
             [(''avg_gas_price'', MNum avg_gas_price'),
              (''value_flow_ratio'', MNum value_flow_ratio),
              (''largest_transaction'', MNum largest_tx),
              (''interaction_diversity'', MNum diversity_ratio),
              (''wallet_age_days'', MNum wallet_age_days)]\<rparr>)"

section \<open>GeminiRiskAnalyzer (llm/gemini\_client.py)\<close>

text \<open>
  What the language model sends back is decoded JSON, so the values of an LLM result are
  untyped: a score may be a number, a string, \<open>null\<close>, a list. A JSON object holds its
  items as an association list. Python's \<open>True\<close> and \<open>False\<close> are the numbers 1 and 0.
\<close>

datatype json =
  JNull | JBool bool | JNum rat | JStr string | JArr "json list" | JObj "(string \<times> json) list"

type_synonym llm_result = "(string \<times> json) list"

text \<open>
  \<open>str.isspace\<close> holds of twelve of the code points below 256, and \<open>str.strip()\<close>
  removes them at both ends.
\<close>

definition isspace :: "char \<Rightarrow> bool" where
  "isspace c = ((of_char c :: nat) \<in> {9, 10, 11, 12, 13, 28, 29, 30, 31, 32, 133, 160})"

definition strip :: "string \<Rightarrow> string" where
  "strip s = rev (dropWhile isspace (rev (dropWhile isspace s)))"

text \<open>
  The first lines of \<open>_parse_gemini_response\<close> strip the response and a Markdown
  fence around it. \<open>json.loads\<close> is a parameter: it returns the decoded value, or
  \<open>Inl\<close> the message of the JSONDecodeError it raises. Membership, subscript assignment and \<open>.get\<close> on a decoded
  value that is not an object raise TypeError or AttributeError, which leave the function.
\<close>

definition cleaned_response_of :: "string \<Rightarrow> string" where
  "cleaned_response_of response =
    (let cleaned_response = strip response;
         cleaned_response =
           (if prefix ''```json'' cleaned_response then drop 7 cleaned_response
            else cleaned_response);
         cleaned_response =
           (if suffix ''```'' cleaned_response
            then take (length cleaned_response - 3) cleaned_response
            else cleaned_response)
     in strip cleaned_response)"

definition GeminiRiskAnalyzer_parse_gemini_response ::
  "(string \<Rightarrow> string + json) \<Rightarrow> string \<Rightarrow> exception + llm_result" where
  "GeminiRiskAnalyzer_parse_gemini_response json_loads response =
    (let cleaned_response = cleaned_response_of response
     in case json_loads cleaned_response of
          Inl json_error \<Rightarrow>
            Inr [(''llm_risk_score'', JNum 50),
                 (''reasoning'', JStr (''Gemini response could not be parsed: '' @ json_error)),
                 (''component_scores'', JObj []),
                 (''raw_response'', JStr response)]
        | Inr (JObj parsed) \<Rightarrow>
            let parsed =
                  (if map_of parsed ''overall_risk_score'' = None
                   then parsed @ [(''overall_risk_score'', JNum 50)] else parsed);
                extracted_score = get_default (map_of parsed ''overall_risk_score'') (JNum 50)
            in Inr [(''llm_risk_score'', extracted_score),
                    (''component_scores'',
                     get_default (map_of parsed ''component_scores'') (JObj [])),
                    (''reasoning'',
                     get_default (map_of parsed ''risk_reasoning'')
                       (JStr ''Gemini analysis completed'')),
                    (''key_insights'', get_default (map_of parsed ''key_insights'') (JArr [])),
                    (''raw_response'', JStr response)]
        | Inr (JStr s) \<Rightarrow>
            if substring_in ''overall_risk_score'' s then Inl AttributeError else Inl TypeError
        | Inr (JArr xs) \<Rightarrow>
            if JStr ''overall_risk_score'' \<in> set xs then Inl AttributeError else Inl TypeError
        | Inr _ \<Rightarrow> Inl TypeError)"

text \<open>
  The environment of the client: the credential, and what \<open>_call_gemini_api\<close> returns for
  the prompt (\<open>None\<close> when the call fails). The prompt itself only travels to the remote
  service and is not modelled. The texts of Python's own exception messages, which the
  source appends to two of the reasoning strings, are left out.
\<close>

record gemini_env =
  GEMINI_API_KEY :: "string option"
  call_gemini_api :: "string option"

definition GeminiRiskAnalyzer_analyze_wallet_risk ::
  "(string \<Rightarrow> string + json) \<Rightarrow> gemini_env \<Rightarrow> llm_result" where
  "GeminiRiskAnalyzer_analyze_wallet_risk json_loads env =
    (if GEMINI_API_KEY env = None
     then [(''llm_risk_score'', JNull),
           (''reasoning'', JStr ''Gemini analysis not available (no API key)''),
           (''component_scores'', JObj [])]
     else
       case call_gemini_api env of
         None \<Rightarrow>
           [(''llm_risk_score'', JNull),
            (''reasoning'', JStr ''Gemini API call failed''),
            (''component_scores'', JObj [])]
       | Some response \<Rightarrow>
           if response = []
           then [(''llm_risk_score'', JNull),
                 (''reasoning'', JStr ''Gemini API call failed''),
                 (''component_scores'', JObj [])]
           else (case GeminiRiskAnalyzer_parse_gemini_response json_loads response of
                   Inl api_error \<Rightarrow>
                     [(''llm_risk_score'', JNull),
                      (''reasoning'', JStr ''Gemini API error: ''),
                      (''component_scores'', JObj [])]
                 | Inr r \<Rightarrow> r))"

section \<open>Risk levels (utils/risk\_levels.py)\<close>

definition get_risk_level_description :: "rat \<Rightarrow> string \<times> string" where
  "get_risk_level_description score =
    (if score \<ge> 80 then (''VERY_HIGH'', getitem RISK_LEVEL_DESCRIPTIONS ''VERY_HIGH'')
     else if score \<ge> 60 then (''HIGH'', getitem RISK_LEVEL_DESCRIPTIONS ''HIGH'')
     else if score \<ge> 40 then (''MEDIUM'', getitem RISK_LEVEL_DESCRIPTIONS ''MEDIUM'')
     else if score \<ge> 20 then (''LOW'', getitem RISK_LEVEL_DESCRIPTIONS ''LOW'')
     else (''VERY_LOW'', getitem RISK_LEVEL_DESCRIPTIONS ''VERY_LOW''))"

section \<open>RiskScoringEngine (core.py)\<close>

text \<open>
  \<open>round(x, ndigits)\<close> rounds to the nearest multiple of \<open>10 ^ -ndigits\<close>, a tie going to
  the even neighbour. On rationals the tie is decided on the exact value.
\<close>

definition round_half_even :: "rat \<Rightarrow> int" where
  "round_half_even y =
    (let f = \<lfloor>y\<rfloor>; d = y - of_int f
     in if d < 1 / 2 then f
        else if d > 1 / 2 then f + 1
        else if even f then f else f + 1)"

definition round_py :: "rat \<Rightarrow> nat \<Rightarrow> rat" where
  "round_py x ndigits = of_int (round_half_even (x * 10 ^ ndigits)) / 10 ^ ndigits"

text \<open>The operations of the engine on untyped values, with the exception each one raises.\<close>

definition truthy :: "json \<Rightarrow> bool" where
  "truthy v =
    (case v of
       JNull \<Rightarrow> False
     | JBool b \<Rightarrow> b
     | JNum r \<Rightarrow> r \<noteq> 0
     | JStr s \<Rightarrow> s \<noteq> []
     | JArr xs \<Rightarrow> xs \<noteq> []
     | JObj kvs \<Rightarrow> kvs \<noteq> [])"

definition as_number :: "json \<Rightarrow> exception + rat" where
  "as_number v =
    (case v of
       JNum r \<Rightarrow> Inr r
     | JBool b \<Rightarrow> Inr (if b then 1 else 0)
     | _ \<Rightarrow> Inl TypeError)"

definition format_f :: "json \<Rightarrow> exception + rat" where
  "format_f v = (case v of JStr s \<Rightarrow> Inl ValueError | _ \<Rightarrow> as_number v)"

definition dict_get :: "json \<Rightarrow> string \<Rightarrow> json \<Rightarrow> exception + json" where
  "dict_get d k dflt =
    (case d of
       JObj kvs \<Rightarrow> Inr (get_default (map_of kvs k) dflt)
     | _ \<Rightarrow> Inl AttributeError)"

record component_scores =
  transaction_patterns :: rat
  protocol_interactions :: rat
  asset_concentration :: rat
  behavioral_patterns :: rat

text \<open>Lines 83 to 92: the rule-based weighted overall score.\<close>

definition rule_based_risk :: "rat \<Rightarrow> rat \<Rightarrow> rat \<Rightarrow> rat \<Rightarrow> rat" where
  "rule_based_risk transaction_risk protocol_risk concentration_risk behavioral_risk =
     transaction_risk * getitem RISK_WEIGHTS ''transaction_patterns''
     + protocol_risk * getitem RISK_WEIGHTS ''protocol_interactions''
     + concentration_risk * getitem RISK_WEIGHTS ''asset_concentration''
     + behavioral_risk
       * (getitem RISK_WEIGHTS ''activity_frequency'' + getitem RISK_WEIGHTS ''failure_rate'')"

text \<open>
  One entry of \<open>hybrid_components\<close>:
  \<open>w_rule * rule + w_llm * llm_component_scores.get(key, rule)\<close>. The value looked up
  is the LLM's component score, or the rule-based one where the LLM gave none.
\<close>

definition llm_component :: "json \<Rightarrow> string \<Rightarrow> rat \<Rightarrow> exception + rat" where
  "llm_component llm_component_scores key rule =
    (case dict_get llm_component_scores key (JNum rule) of
       Inl e \<Rightarrow> Inl e
     | Inr v \<Rightarrow> as_number v)"

definition hybrid_component :: "rat \<Rightarrow> rat \<Rightarrow> rat \<Rightarrow> json \<Rightarrow> string \<Rightarrow> exception + rat" where
  "hybrid_component w_rule w_llm rule llm_component_scores key =
    (case llm_component llm_component_scores key rule of
       Inl e \<Rightarrow> Inl e
     | Inr x \<Rightarrow> Inr (w_rule * rule + w_llm * x))"

text \<open>
  Lines 125 to 185, the body of the second \<open>try\<close>: the overall score and the primary
  component scores, or the exception that the \<open>except\<close> clause will catch. The first
  statement of the branch prints the LLM score with the format \<open>.1f\<close>.
\<close>

definition hybrid_scores ::
  "json \<Rightarrow> json \<Rightarrow> rat \<Rightarrow> rat \<Rightarrow> rat \<Rightarrow> rat \<Rightarrow> rat \<Rightarrow> exception + rat \<times> component_scores" where
  "hybrid_scores llm_risk_score llm_component_scores rule_based_risk'
      transaction_risk protocol_risk concentration_risk behavioral_risk =
    (if llm_risk_score \<noteq> JNull
     then
       (case format_f llm_risk_score of
          Inl e \<Rightarrow> Inl e
        | Inr llm \<Rightarrow>
       (let hybrid_risk =
              getitem LLM_CONFIG ''rule_based_weight'' * rule_based_risk'
              + getitem LLM_CONFIG ''llm_weight'' * llm
        in case hybrid_component (7 / 10) (3 / 10) transaction_risk llm_component_scores
                  ''transaction_patterns'' of
             Inl e \<Rightarrow> Inl e
           | Inr t \<Rightarrow>
       (case hybrid_component (5 / 10) (5 / 10) protocol_risk llm_component_scores
                  ''protocol_interactions'' of
             Inl e \<Rightarrow> Inl e
           | Inr p \<Rightarrow>
       (case hybrid_component (6 / 10) (4 / 10) concentration_risk llm_component_scores
                  ''asset_concentration'' of
             Inl e \<Rightarrow> Inl e
           | Inr c \<Rightarrow>
       (case hybrid_component (7 / 10) (3 / 10) behavioral_risk llm_component_scores
                  ''behavioral_patterns'' of
             Inl e \<Rightarrow> Inl e
           | Inr b \<Rightarrow>
               Inr (hybrid_risk,
                    \<lparr>transaction_patterns = t, protocol_interactions = p,
                     asset_concentration = c, behavioral_patterns = b\<rparr>))))))
     else
       Inr (rule_based_risk',
            \<lparr>transaction_patterns = transaction_risk, protocol_interactions = protocol_risk,
             asset_concentration = concentration_risk, behavioral_patterns = behavioral_risk\<rparr>))"

text \<open>The returned dictionary. \<open>recommendations\<close> and \<open>risk_distribution\<close> are left out.\<close>

record ('s, 'c) report =
  overall_score :: 's
  risk_level :: string
  components :: 'c

record llm_report = "(rat option, json) report" +
  reasoning :: json
  key_insights :: json

record hybrid_report = "(rat, component_scores) report" +
  methodology :: fstring

record scoring_methods =
  rule_based :: "(rat, component_scores) report"
  llm_based :: llm_report
  hybrid :: hybrid_report

record detailed_analysis =
  transaction_analysis :: component_result
  protocol_analysis :: component_result
  concentration_analysis :: component_result
  behavioral_analysis :: component_result
  llm_analysis :: llm_result

record risk_assessment =
  overall_risk_score :: rat
  risk_level :: string
  risk_description :: string
  component_scores :: component_scores
  scoring_methods :: scoring_methods
  component_weights :: "(string \<times> rat) list"
  detailed_analysis :: detailed_analysis
  risk_factors :: "fstring list"

definition round_components :: "component_scores \<Rightarrow> component_scores" where
  "round_components cs =
    \<lparr>transaction_patterns = round_py (transaction_patterns cs) 2,
     protocol_interactions = round_py (protocol_interactions cs) 2,
     asset_concentration = round_py (asset_concentration cs) 2,
     behavioral_patterns = round_py (behavioral_patterns cs) 2\<rparr>"

text \<open>
  Lines 98 to 120, the first \<open>try\<close>. The argument is the outcome of the call
  \<open>self.llm_analyzer.analyze_wallet_risk(patterns, protocol_analysis, balances)\<close>: the
  dictionary it returns, or \<open>Inl\<close> when it raises.
\<close>

definition llm_result_of :: "exception + llm_result \<Rightarrow> llm_result" where
  "llm_result_of llm_call =
    (case llm_call of
       Inr llm_result \<Rightarrow> llm_result
     | Inl e \<Rightarrow>
         [(''llm_risk_score'', JNull),
          (''reasoning'', JStr ''Gemini analysis failed: ''),
          (''component_scores'', JObj [])])"

definition llm_risk_score_of :: "exception + llm_result \<Rightarrow> json" where
  "llm_risk_score_of llm_call =
    (case llm_call of
       Inr llm_result \<Rightarrow> get_default (map_of llm_result ''llm_risk_score'') JNull
     | Inl e \<Rightarrow> JNull)"

definition llm_component_scores_of :: "exception + llm_result \<Rightarrow> json" where
  "llm_component_scores_of llm_call =
    (case llm_call of
       Inr llm_result \<Rightarrow> get_default (map_of llm_result ''component_scores'') (JObj [])
     | Inl e \<Rightarrow> JObj [])"

text \<open>
  Lines 124 to 196, the second \<open>try\<close> with its \<open>except\<close>: an exception in the hybrid
  calculation falls back to the rule-based scores.
\<close>

definition primary_scores ::
  "json \<Rightarrow> json \<Rightarrow> rat \<Rightarrow> rat \<Rightarrow> rat \<Rightarrow> rat \<Rightarrow> rat \<Rightarrow> rat \<times> component_scores" where
  "primary_scores llm_risk_score llm_component_scores rule_based_risk'
      transaction_risk protocol_risk concentration_risk behavioral_risk =
    (case hybrid_scores llm_risk_score llm_component_scores rule_based_risk'
            transaction_risk protocol_risk concentration_risk behavioral_risk of
       Inr r \<Rightarrow> r
     | Inl e \<Rightarrow>
         (rule_based_risk',
          \<lparr>transaction_patterns = transaction_risk,
           protocol_interactions = protocol_risk,
           asset_concentration = concentration_risk,
           behavioral_patterns = behavioral_risk\<rparr>))"

text \<open>
  Lines 253 to 260: the score and the level reported for the LLM. \<open>round\<close> and the
  comparisons of \<open>get_risk_level_description\<close> raise TypeError on a score that is truthy
  and not a number.
\<close>

definition llm_based_score_and_level :: "json \<Rightarrow> exception + rat option \<times> string" where
  "llm_based_score_and_level llm_risk_score =
    (if truthy llm_risk_score
     then (case as_number llm_risk_score of
             Inl e \<Rightarrow> Inl e
           | Inr llm \<Rightarrow> Inr (Some (round_py llm 2), fst (get_risk_level_description llm)))
     else Inr (None, ''N/A''))"

text \<open>
  \<open>calculate_overall_risk_score\<close>. The analyzers run outside any \<open>try\<close>, so an exception
  of theirs leaves the function, and so does one raised while the returned dictionary is
  built.
\<close>

definition calculate_overall_risk_score ::
  "exception + llm_result \<Rightarrow> patterns \<Rightarrow> protocol_analysis \<Rightarrow> balances
    \<Rightarrow> exception + risk_assessment" where
  "calculate_overall_risk_score llm_call p pa b =
    (let transaction_result = TransactionPatternAnalyzer_calculate_risk p
     in case ProtocolRiskAnalyzer_calculate_risk pa of
          Inl e \<Rightarrow> Inl e
        | Inr protocol_result \<Rightarrow>
     (let concentration_result = AssetConcentrationAnalyzer_calculate_risk b;
          behavioral_result = BehavioralPatternAnalyzer_calculate_risk p;
          transaction_risk = risk_score transaction_result;
          protocol_risk = risk_score protocol_result;
          concentration_risk = risk_score concentration_result;
          behavioral_risk = risk_score behavioral_result;
          rule_based_risk' =
            rule_based_risk transaction_risk protocol_risk concentration_risk behavioral_risk;
          llm_result = llm_result_of llm_call;
          llm_risk_score = llm_risk_score_of llm_call;
          llm_component_scores = llm_component_scores_of llm_call;
          (overall_risk, primary_components) =
            primary_scores llm_risk_score llm_component_scores rule_based_risk'
              transaction_risk protocol_risk concentration_risk behavioral_risk;
          (risk_level', risk_description') = get_risk_level_description overall_risk;
          all_reasons =
            reasons transaction_result @ reasons protocol_result
            @ reasons concentration_result @ reasons behavioral_result
      in case llm_based_score_and_level llm_risk_score of
           Inl e \<Rightarrow> Inl e
         | Inr (llm_overall_score, llm_risk_level) \<Rightarrow>
             Inr \<lparr>overall_risk_score = round_py overall_risk 2,
                  risk_level = risk_level',
                  risk_description = risk_description',
                  component_scores = round_components primary_components,
                  scoring_methods =
                    \<lparr>rule_based =
                       \<lparr>overall_score = round_py rule_based_risk' 2,
                        report.risk_level = fst (get_risk_level_description rule_based_risk'),
                        components =
                          round_components
                            \<lparr>transaction_patterns = transaction_risk,
                             protocol_interactions = protocol_risk,
                             asset_concentration = concentration_risk,
                             behavioral_patterns = behavioral_risk\<rparr>\<rparr>,
                     llm_based =
                       \<lparr>overall_score = llm_overall_score,
                        report.risk_level = llm_risk_level,
                        components = llm_component_scores,
                        reasoning =
                          get_default (map_of llm_result ''reasoning'')
                            (JStr ''Gemini analysis not available''),
                        key_insights =
                          get_default (map_of llm_result ''key_insights'') (JArr [])\<rparr>,
                     hybrid =
                       \<lparr>overall_score = round_py overall_risk 2,
                        report.risk_level = risk_level',
                        components = round_components primary_components,
                        methodology =
                          (if truthy llm_risk_score
                           then [Val (getitem LLM_CONFIG ''rule_based_weight'' * 100) ''.0f'',
                                 Lit ''% rule-based + '',
                                 Val (getitem LLM_CONFIG ''llm_weight'' * 100) ''.0f'',
                                 Lit ''% Gemini'']
                           else [Lit ''100% rule-based (Gemini unavailable)''])\<rparr>\<rparr>,
                  component_weights = RISK_WEIGHTS,
                  detailed_analysis =
                    \<lparr>transaction_analysis = transaction_result,
                     protocol_analysis = protocol_result,
                     concentration_analysis = concentration_result,
                     behavioral_analysis = behavioral_result,
                     llm_analysis = llm_result\<rparr>,
                  risk_factors = all_reasons\<rparr>))"

section \<open>Example inputs\<close>

text \<open>
  Concrete inputs on which the statements below are exercised: what the transaction
  client returns for an address without transactions, what the protocol client returns
  for the sentinel of no DeFi interactions, an empty wallet, and an active wallet.
\<close>

definition no_data_patterns :: patterns where
  "no_data_patterns =
    \<lparr>error = Some ''No transactions found'', total_transactions = None,
     successful_transactions = None, failed_transactions = None, unique_addresses = None,
     contract_interactions = None, high_value_transactions = None, recent_activity = None,
     gas_analysis = None, time_analysis = None, value_analysis = None,
     address_interactions = None\<rparr>"

definition zero_transactions_patterns :: patterns where
  "zero_transactions_patterns = no_data_patterns\<lparr>error := None, total_transactions := Some 0\<rparr>"

definition no_defi_protocol_analysis :: protocol_analysis where
  "no_defi_protocol_analysis =
    \<lparr>protocols = Some [], average_risk = Some 0, raw_average_risk = Some 0,
     high_risk_protocols = Some 0, total_tvl_interacted = Some 0,
     diversification_score = Some 0, categories = Some [], total_protocols = Some 0,
     concentration_penalty = Some 0,
     risk_distribution =
       Some [(''low'', 0), (''medium'', 0), (''high'', 0), (''very_high'', 0)]\<rparr>"

definition empty_balances :: balances where
  "empty_balances = \<lparr>eth_balance = Some 0, tokens = Some []\<rparr>"

definition active_patterns :: patterns where
  "active_patterns =
    \<lparr>error = None, total_transactions = Some 200, successful_transactions = Some 150,
     failed_transactions = Some 50, unique_addresses = Some 12,
     contract_interactions = Some 190, high_value_transactions = Some 70,
     recent_activity = Some 60,
     gas_analysis =
       Some \<lparr>total_gas_used = Some 21000000, avg_gas_price = Some 250, total_fees = Some 5\<rparr>,
     time_analysis =
       Some \<lparr>first_transaction = Some 1700000000, last_transaction = Some 1700864000,
             activity_frequency = Some 20\<rparr>,
     value_analysis =
       Some \<lparr>total_value_in = Some 10, total_value_out = Some 40,
             largest_transaction = Some 150, avg_transaction_value = Some (1 / 4)\<rparr>,
     address_interactions =
       Some \<lparr>most_frequent_addresses = Some [(''0xabc'', 120)],
             interaction_diversity = Some 11\<rparr>\<rparr>"

definition risky_protocol_analysis :: protocol_analysis where
  "risky_protocol_analysis =
    \<lparr>protocols =
       Some [(''Shady Farm'', 85, 0, ''Unknown'', []),
             (''Uniswap'', 20, 4000000000, ''Dexes'', [''Ethereum''])],
     average_risk = Some (125 / 2), raw_average_risk = Some (105 / 2),
     high_risk_protocols = Some 1, total_tvl_interacted = Some 4000000000,
     diversification_score = Some 2, categories = Some [''Unknown'', ''Dexes''],
     total_protocols = Some 2, concentration_penalty = Some 10,
     risk_distribution =
       Some [(''low'', 1), (''medium'', 0), (''high'', 0), (''very_high'', 1)]\<rparr>"

definition stable_balances :: balances where
  "stable_balances =
    \<lparr>eth_balance = Some 12,
     tokens =
       Some [[(''contract_address'', ''0xa0b8''), (''token_name'', ''USD Coin''),
              (''token_symbol'', ''USDC''), (''token_decimal'', ''6''),
              (''last_transaction'', ''1700000000'')],
             [(''contract_address'', ''0x6b17''), (''token_name'', ''Dai Stablecoin''),
              (''token_symbol'', ''DAI''), (''token_decimal'', ''18''),
              (''last_transaction'', ''1700000001'')],
             [(''contract_address'', ''0x1f98''), (''token_name'', ''Uniswap''),
              (''token_symbol'', ''UNI''), (''token_decimal'', ''18''),
              (''last_transaction'', ''1700000002'')]]\<rparr>"

definition division_by_zero_protocol_analysis :: protocol_analysis where
  "division_by_zero_protocol_analysis =
     risky_protocol_analysis\<lparr>total_protocols := Some 0\<rparr>"


definition llm_unavailable :: llm_result where
  "llm_unavailable =
    [(''llm_risk_score'', JNull),
     (''reasoning'', JStr ''Gemini analysis not available (no API key)''),
     (''component_scores'', JObj [])]"

definition llm_scores_80 :: llm_result where
  "llm_scores_80 =
    [(''llm_risk_score'', JNum 80),
     (''component_scores'',
      JObj [(''transaction_patterns'', JNum 70), (''protocol_interactions'', JNum 60),
            (''asset_concentration'', JNum 40), (''behavioral_patterns'', JNum 90)]),
     (''reasoning'', JStr ''Heavy outflow through unaudited contracts''),
     (''key_insights'', JArr [JStr ''New wallet'', JStr ''High gas'']),
     (''raw_response'', JStr ''{}'')]"

definition llm_scores_500 :: llm_result where
  "llm_scores_500 =
    [(''llm_risk_score'', JNum 500),
     (''component_scores'', JObj []),
     (''reasoning'', JStr ''Gemini analysis completed''),
     (''key_insights'', JArr [])]"


text \<open>
  A decoder that rejects its input the way \<open>json.loads\<close> rejects a text that is not
  JSON, and an environment whose API call answers with such a text.
\<close>

definition rejecting_json_loads :: "string \<Rightarrow> string + json" where
  "rejecting_json_loads s = Inl ''Expecting value: line 1 column 1 (char 0)''"

definition unparsable_env :: gemini_env where
  "unparsable_env =
    \<lparr>GEMINI_API_KEY = Some ''key'',
     call_gemini_api = Some ''I cannot assess this wallet.''\<rparr>"

definition no_key_env :: gemini_env where
  "no_key_env = \<lparr>GEMINI_API_KEY = None, call_gemini_api = None\<rparr>"

section \<open>The configuration\<close>

text \<open>Every key that the engine subscripts is a key of its dictionary.\<close>

lemma TRANSACTION_THRESHOLDS_keys:
  "set [''low_success_rate'', ''moderate_success_rate'', ''high_success_rate'',
      ''very_high_activity_frequency'', ''high_activity_frequency'', ''low_activity_frequency'',
      ''very_high_value_tx_ratio'', ''high_value_tx_ratio'', ''very_high_contract_ratio'',
      ''high_contract_ratio'', ''low_contract_ratio'', ''inactive_days'',
      ''recent_activity_threshold'', ''high_gas_price'', ''low_address_diversity'']
     \<subseteq> fst ` set TRANSACTION_THRESHOLDS"
  by (simp add: TRANSACTION_THRESHOLDS_def)

lemma PROTOCOL_THRESHOLDS_keys:
  "set [''single_protocol_penalty'', ''low_diversification_threshold'',
      ''low_diversification_penalty'', ''diversification_bonus'', ''very_high_tvl'',
      ''very_high_tvl_bonus'', ''high_tvl'', ''high_tvl_bonus'', ''medium_tvl'',
      ''medium_tvl_bonus'', ''low_tvl'', ''low_tvl_penalty'', ''very_high_risk_penalty'']
     \<subseteq> fst ` set PROTOCOL_THRESHOLDS"
  by (simp add: PROTOCOL_THRESHOLDS_def)

lemma ASSET_THRESHOLDS_keys:
  "set [''single_token_penalty'', ''low_diversification_count'',
      ''low_diversification_penalty'', ''good_diversification_count'',
      ''good_diversification_bonus'', ''high_diversification_bonus'',
      ''very_large_eth_holdings'', ''very_large_eth_penalty'', ''large_eth_holdings'',
      ''large_eth_penalty'', ''significant_eth_holdings'', ''significant_eth_penalty'',
      ''very_low_eth_balance'', ''very_low_eth_penalty'', ''stablecoin_bonus_per_token'',
      ''stablecoin_bonus_max'']
     \<subseteq> fst ` set ASSET_THRESHOLDS"
  by (simp add: ASSET_THRESHOLDS_def)

lemma BEHAVIORAL_THRESHOLDS_keys:
  "set [''very_high_gas_price'', ''very_high_gas_penalty'', ''high_gas_price'',
      ''high_gas_penalty'', ''low_gas_price'', ''low_gas_bonus'', ''heavy_outflow_ratio'',
      ''heavy_outflow_penalty'', ''moderate_outflow_ratio'', ''moderate_outflow_penalty'',
      ''accumulation_ratio'', ''accumulation_bonus'', ''very_large_transaction'',
      ''very_large_tx_penalty'', ''large_transaction'', ''large_tx_penalty'',
      ''very_concentrated_interactions'', ''very_concentrated_penalty'',
      ''concentrated_interactions'', ''concentrated_penalty'', ''diverse_interactions'',
      ''diverse_bonus'', ''very_new_wallet_days'', ''very_new_wallet_penalty'',
      ''new_wallet_days'', ''new_wallet_penalty'', ''old_wallet_days'', ''old_wallet_bonus'']
     \<subseteq> fst ` set BEHAVIORAL_THRESHOLDS"
  by (simp add: BEHAVIORAL_THRESHOLDS_def)

lemma RISK_WEIGHTS_keys:
  "set [''transaction_patterns'', ''protocol_interactions'', ''asset_concentration'',
      ''activity_frequency'', ''failure_rate'']
     \<subseteq> fst ` set RISK_WEIGHTS"
  by (simp add: RISK_WEIGHTS_def)

lemma LLM_CONFIG_keys:
  "set [''rule_based_weight'', ''llm_weight'']
     \<subseteq> fst ` set LLM_CONFIG"
  by (simp add: LLM_CONFIG_def)

lemma RISK_LEVEL_DESCRIPTIONS_keys:
  "set [''VERY_HIGH'', ''HIGH'', ''MEDIUM'', ''LOW'', ''VERY_LOW'']
     \<subseteq> fst ` set RISK_LEVEL_DESCRIPTIONS"
  by (simp add: RISK_LEVEL_DESCRIPTIONS_def)

section \<open>Facts about the analyzers\<close>

lemma TransactionPatternAnalyzer_range:
  "0 \<le> risk_score (TransactionPatternAnalyzer_calculate_risk p) \<and>
   risk_score (TransactionPatternAnalyzer_calculate_risk p) \<le> 100"
  by (simp add: TransactionPatternAnalyzer_calculate_risk_def Let_def split: prod.splits)

lemma ProtocolRiskAnalyzer_range:
  "ProtocolRiskAnalyzer_calculate_risk pa = Inr r \<Longrightarrow> 0 \<le> risk_score r \<and> risk_score r \<le> 100"
  by (auto simp: ProtocolRiskAnalyzer_calculate_risk_def Let_def
           split: option.splits if_splits sum.splits prod.splits)

lemma AssetConcentrationAnalyzer_range:
  "0 \<le> risk_score (AssetConcentrationAnalyzer_calculate_risk b) \<and>
   risk_score (AssetConcentrationAnalyzer_calculate_risk b) \<le> 100"
  by (simp add: AssetConcentrationAnalyzer_calculate_risk_def Let_def split: prod.splits)

lemma BehavioralPatternAnalyzer_range:
  "0 \<le> risk_score (BehavioralPatternAnalyzer_calculate_risk p) \<and>
   risk_score (BehavioralPatternAnalyzer_calculate_risk p) \<le> 100"
  by (simp add: BehavioralPatternAnalyzer_calculate_risk_def Let_def split: prod.splits)

section \<open>Facts about the engine\<close>

lemma RISK_WEIGHTS_items:
  "getitem RISK_WEIGHTS ''transaction_patterns'' = 25 / 100"
  "getitem RISK_WEIGHTS ''protocol_interactions'' = 30 / 100"
  "getitem RISK_WEIGHTS ''asset_concentration'' = 20 / 100"
  "getitem RISK_WEIGHTS ''activity_frequency'' = 15 / 100"
  "getitem RISK_WEIGHTS ''failure_rate'' = 10 / 100"
  by (simp_all add: getitem_def RISK_WEIGHTS_def)

lemma LLM_CONFIG_items:
  "getitem LLM_CONFIG ''rule_based_weight'' = 6 / 10"
  "getitem LLM_CONFIG ''llm_weight'' = 4 / 10"
  by (simp_all add: getitem_def LLM_CONFIG_def)

lemma round_half_even_lower: "of_int n \<le> y \<Longrightarrow> n \<le> round_half_even y"
proof -
  assume "of_int n \<le> y"
  then have "n \<le> \<lfloor>y\<rfloor>" by (simp add: le_floor_iff)
  then show ?thesis by (simp add: round_half_even_def Let_def)
qed

lemma round_half_even_upper: "y \<le> of_int n \<Longrightarrow> round_half_even y \<le> n"
proof -
  assume le: "y \<le> of_int n"
  have fl: "\<lfloor>y\<rfloor> \<le> n" using le by (simp add: floor_le_iff)
  show ?thesis
  proof (cases "y = of_int \<lfloor>y\<rfloor>")
    case True
    then have "y - of_int \<lfloor>y\<rfloor> = 0" by simp
    then show ?thesis using fl by (simp add: round_half_even_def Let_def)
  next
    case False
    then have "of_int \<lfloor>y\<rfloor> < y" using of_int_floor_le [of y] by linarith
    then have "of_int \<lfloor>y\<rfloor> < (of_int n :: rat)" using le by linarith
    then have "\<lfloor>y\<rfloor> < n" by simp
    then show ?thesis by (simp add: round_half_even_def Let_def)
  qed
qed

lemma round_py_range:
  assumes "0 \<le> x" and "x \<le> 100"
  shows "0 \<le> round_py x 2 \<and> round_py x 2 \<le> 100"
proof -
  have "of_int 0 \<le> x * 10 ^ 2" using assms by simp
  then have lo: "0 \<le> round_half_even (x * 10 ^ 2)" by (rule round_half_even_lower)
  have "x * 10 ^ 2 \<le> of_int 10000" using assms by simp
  then have hi: "round_half_even (x * 10 ^ 2) \<le> 10000" by (rule round_half_even_upper)
  have "(of_int (round_half_even (x * 10 ^ 2)) :: rat) \<le> of_int 10000"
    using hi by (simp only: of_int_le_iff)
  then show ?thesis using lo by (simp add: round_py_def)
qed

lemma rule_based_risk_eq:
  "rule_based_risk t p c b = t * (25 / 100) + p * (30 / 100) + c * (20 / 100) + b * (25 / 100)"
  by (simp add: rule_based_risk_def RISK_WEIGHTS_items)

lemma rule_based_risk_range:
  assumes "0 \<le> t \<and> t \<le> 100" "0 \<le> p \<and> p \<le> 100" "0 \<le> c \<and> c \<le> 100" "0 \<le> b \<and> b \<le> 100"
  shows "0 \<le> rule_based_risk t p c b \<and> rule_based_risk t p c b \<le> 100"
  using assms by (simp add: rule_based_risk_eq)

lemma calculate_overall_risk_score_fields:
  assumes "calculate_overall_risk_score llm_call p pa b = Inr a"
  shows "\<exists>pr. ProtocolRiskAnalyzer_calculate_risk pa = Inr pr \<and>
    (let t = risk_score (TransactionPatternAnalyzer_calculate_risk p);
         q = risk_score pr;
         c = risk_score (AssetConcentrationAnalyzer_calculate_risk b);
         h = risk_score (BehavioralPatternAnalyzer_calculate_risk p);
         rule = rule_based_risk t q c h;
         ps = primary_scores (llm_risk_score_of llm_call) (llm_component_scores_of llm_call)
                rule t q c h
     in detailed_analysis a =
          \<lparr>transaction_analysis = TransactionPatternAnalyzer_calculate_risk p,
           protocol_analysis = pr,
           concentration_analysis = AssetConcentrationAnalyzer_calculate_risk b,
           behavioral_analysis = BehavioralPatternAnalyzer_calculate_risk p,
           llm_analysis = llm_result_of llm_call\<rparr>
        \<and> overall_risk_score a = round_py (fst ps) 2
        \<and> risk_level a = fst (get_risk_level_description (fst ps))
        \<and> component_scores a = round_components (snd ps)
        \<and> rule_based (scoring_methods a) =
            \<lparr>overall_score = round_py rule 2,
             report.risk_level = fst (get_risk_level_description rule),
             components =
               round_components
                 \<lparr>transaction_patterns = t, protocol_interactions = q,
                  asset_concentration = c, behavioral_patterns = h\<rparr>\<rparr>
        \<and> overall_score (hybrid (scoring_methods a)) = round_py (fst ps) 2
        \<and> report.risk_level (hybrid (scoring_methods a))
            = fst (get_risk_level_description (fst ps))
        \<and> components (hybrid (scoring_methods a)) = round_components (snd ps)
        \<and> methodology (hybrid (scoring_methods a)) =
            (if truthy (llm_risk_score_of llm_call)
             then [Val (getitem LLM_CONFIG ''rule_based_weight'' * 100) ''.0f'',
                   Lit ''% rule-based + '',
                   Val (getitem LLM_CONFIG ''llm_weight'' * 100) ''.0f'',
                   Lit ''% Gemini'']
             else [Lit ''100% rule-based (Gemini unavailable)''])
        \<and> llm_based_score_and_level (llm_risk_score_of llm_call)
            = Inr (overall_score (llm_based (scoring_methods a)),
                   report.risk_level (llm_based (scoring_methods a))))"
  using assms
  by (auto simp: calculate_overall_risk_score_def Let_def split: sum.splits prod.splits)

lemma calculate_overall_risk_score_returns:
  assumes "ProtocolRiskAnalyzer_calculate_risk pa = Inr pr"
    and "llm_based_score_and_level (llm_risk_score_of llm_call) = Inr sl"
  shows "\<exists>a. calculate_overall_risk_score llm_call p pa b = Inr a"
  using assms
  by (simp add: calculate_overall_risk_score_def Let_def split: prod.splits)

lemma llm_based_score_and_level_JNull [simp]:
  "llm_based_score_and_level JNull = Inr (None, ''N/A'')"
  by (simp add: llm_based_score_and_level_def truthy_def)

lemma llm_based_score_and_level_JNum:
  "llm_based_score_and_level (JNum l) =
    Inr (if l = 0 then (None, ''N/A'')
         else (Some (round_py l 2), fst (get_risk_level_description l)))"
  by (simp add: llm_based_score_and_level_def truthy_def as_number_def)

lemma primary_scores_JNull:
  "primary_scores JNull lc rule t q c h =
    (rule, \<lparr>transaction_patterns = t, protocol_interactions = q,
            asset_concentration = c, behavioral_patterns = h\<rparr>)"
  by (simp add: primary_scores_def hybrid_scores_def)

lemma primary_scores_blend:
  assumes "ls \<noteq> JNull" and "format_f ls = Inr l"
    and "llm_component lc ''transaction_patterns'' t = Inr lt"
    and "llm_component lc ''protocol_interactions'' q = Inr lq"
    and "llm_component lc ''asset_concentration'' c = Inr lc'"
    and "llm_component lc ''behavioral_patterns'' h = Inr lh"
  shows "primary_scores ls lc rule t q c h =
    (6 / 10 * rule + 4 / 10 * l,
     \<lparr>transaction_patterns = 7 / 10 * t + 3 / 10 * lt,
      protocol_interactions = 5 / 10 * q + 5 / 10 * lq,
      asset_concentration = 6 / 10 * c + 4 / 10 * lc',
      behavioral_patterns = 7 / 10 * h + 3 / 10 * lh\<rparr>)"
  using assms
  by (simp add: primary_scores_def hybrid_scores_def hybrid_component_def LLM_CONFIG_items)

lemma format_f_as_number: "format_f ls = Inr l \<Longrightarrow> as_number ls = Inr l"
  by (auto simp: format_f_def split: json.splits)

lemma primary_scores_overall_cases:
  "fst (primary_scores ls lc rule t q c h) = rule
   \<or> (\<exists>l. as_number ls = Inr l \<and> fst (primary_scores ls lc rule t q c h)
         = 6 / 10 * rule + 4 / 10 * l)"
  by (auto simp: primary_scores_def hybrid_scores_def LLM_CONFIG_items
           dest: format_f_as_number split: sum.splits)

lemma primary_scores_overall_range:
  assumes "0 \<le> rule \<and> rule \<le> 100"
    and "\<And>l. as_number ls = Inr l \<Longrightarrow> 0 \<le> l \<and> l \<le> 100"
  shows "0 \<le> fst (primary_scores ls lc rule t q c h)
         \<and> fst (primary_scores ls lc rule t q c h) \<le> 100"
proof -
  from primary_scores_overall_cases [of ls lc rule t q c h] show ?thesis
  proof
    assume "fst (primary_scores ls lc rule t q c h) = rule"
    then show ?thesis using assms(1) by simp
  next
    assume "\<exists>l. as_number ls = Inr l
      \<and> fst (primary_scores ls lc rule t q c h) = 6 / 10 * rule + 4 / 10 * l"
    then obtain l where l: "as_number ls = Inr l"
      and eq: "fst (primary_scores ls lc rule t q c h) = 6 / 10 * rule + 4 / 10 * l"
      by blast
    from assms(2) [OF l] assms(1) show ?thesis unfolding eq by simp
  qed
qed

lemma llm_based_score_range:
  assumes "llm_based_score_and_level ls = Inr (Some s, lv)"
    and "\<And>l. as_number ls = Inr l \<Longrightarrow> 0 \<le> l \<and> l \<le> 100"
  shows "0 \<le> s \<and> s \<le> 100"
proof -
  from assms(1) obtain l where l: "as_number ls = Inr l" and s: "s = round_py l 2"
    by (auto simp: llm_based_score_and_level_def split: if_splits sum.splits)
  from assms(2) [OF l] show ?thesis unfolding s by (simp add: round_py_range)
qed

section \<open>The analyzers on the example inputs\<close>

lemmas threshold_defs =
  getitem_def TRANSACTION_THRESHOLDS_def PROTOCOL_THRESHOLDS_def ASSET_THRESHOLDS_def
  BEHAVIORAL_THRESHOLDS_def

lemma no_data_scores:
  "risk_score (TransactionPatternAnalyzer_calculate_risk no_data_patterns) = 90"
  "risk_score (BehavioralPatternAnalyzer_calculate_risk no_data_patterns) = 60"
  by (simp_all add: TransactionPatternAnalyzer_calculate_risk_def
      BehavioralPatternAnalyzer_calculate_risk_def no_data_patterns_def)

lemma no_defi_result:
  "ProtocolRiskAnalyzer_calculate_risk no_defi_protocol_analysis =
    Inr \<lparr>risk_score = 0, reasons = [[Lit ''No DeFi protocol interactions - Low Risk'']],
         metrics = Some []\<rparr>"
  by (simp add: ProtocolRiskAnalyzer_calculate_risk_def no_defi_protocol_analysis_def)

lemma empty_balances_score:
  "risk_score (AssetConcentrationAnalyzer_calculate_risk empty_balances) = 90"
  by (simp add: AssetConcentrationAnalyzer_calculate_risk_def empty_balances_def
      AssetConcentrationAnalyzer_analyze_diversification_def
      AssetConcentrationAnalyzer_analyze_eth_holdings_def
      AssetConcentrationAnalyzer_analyze_token_composition_def
      get_default_def threshold_defs)

lemma zero_transactions_scores:
  "risk_score (TransactionPatternAnalyzer_calculate_risk zero_transactions_patterns) = 90"
  "risk_score (BehavioralPatternAnalyzer_calculate_risk zero_transactions_patterns) = 45"
  by (simp_all add: TransactionPatternAnalyzer_calculate_risk_def
      BehavioralPatternAnalyzer_calculate_risk_def
      BehavioralPatternAnalyzer_analyze_gas_patterns_def
      BehavioralPatternAnalyzer_analyze_value_flow_def
      BehavioralPatternAnalyzer_analyze_transaction_sizes_def
      BehavioralPatternAnalyzer_analyze_interaction_diversity_def
      BehavioralPatternAnalyzer_analyze_wallet_lifecycle_def timestamps_def
      zero_transactions_patterns_def no_data_patterns_def get_default_def threshold_defs)

lemma active_transaction_score:
  "risk_score (TransactionPatternAnalyzer_calculate_risk active_patterns) = 100"
  by (simp add: TransactionPatternAnalyzer_calculate_risk_def
      TransactionPatternAnalyzer_analyze_success_rate_def
      TransactionPatternAnalyzer_analyze_activity_frequency_def
      TransactionPatternAnalyzer_analyze_high_value_transactions_def
      TransactionPatternAnalyzer_analyze_contract_interactions_def
      TransactionPatternAnalyzer_analyze_recent_activity_def
      TransactionPatternAnalyzer_analyze_gas_usage_def
      TransactionPatternAnalyzer_analyze_address_diversity_def
      active_patterns_def get_default_def threshold_defs)

lemma active_behavioral_score:
  "risk_score (BehavioralPatternAnalyzer_calculate_risk active_patterns) = 100"
  by (simp add: BehavioralPatternAnalyzer_calculate_risk_def
      BehavioralPatternAnalyzer_analyze_gas_patterns_def
      BehavioralPatternAnalyzer_analyze_value_flow_def
      BehavioralPatternAnalyzer_analyze_transaction_sizes_def
      BehavioralPatternAnalyzer_analyze_interaction_diversity_def
      BehavioralPatternAnalyzer_analyze_wallet_lifecycle_def timestamps_def
      active_patterns_def get_default_def threshold_defs)

lemma risky_protocol_score:
  "\<exists>pr. ProtocolRiskAnalyzer_calculate_risk risky_protocol_analysis = Inr pr
        \<and> risk_score pr = 145 / 2"
  by (simp add: ProtocolRiskAnalyzer_calculate_risk_def
      ProtocolRiskAnalyzer_analyze_high_risk_protocols_def
      ProtocolRiskAnalyzer_analyze_diversification_def
      ProtocolRiskAnalyzer_analyze_tvl_factor_def
      ProtocolRiskAnalyzer_analyze_concentration_def
      ProtocolRiskAnalyzer_analyze_risk_distribution_def
      risky_protocol_analysis_def get_default_def threshold_defs)

lemma stable_balances_score:
  "risk_score (AssetConcentrationAnalyzer_calculate_risk stable_balances) = 40"
  by code_simp

lemma division_by_zero_raises:
  "ProtocolRiskAnalyzer_calculate_risk division_by_zero_protocol_analysis
    = Inl ZeroDivisionError"
  by (simp add: ProtocolRiskAnalyzer_calculate_risk_def
      ProtocolRiskAnalyzer_analyze_high_risk_protocols_def
      division_by_zero_protocol_analysis_def
      risky_protocol_analysis_def get_default_def)

section \<open>Rounding keeps bounds\<close>

lemma round_py_lower: "of_int n / 100 \<le> x \<Longrightarrow> of_int n / 100 \<le> round_py x 2"
proof -
  assume "of_int n / 100 \<le> x"
  then have "of_int n \<le> x * 10 ^ 2" by simp
  then have "n \<le> round_half_even (x * 10 ^ 2)" by (rule round_half_even_lower)
  then have "(of_int n :: rat) \<le> of_int (round_half_even (x * 10 ^ 2))"
    by (simp only: of_int_le_iff)
  then show ?thesis by (simp add: round_py_def)
qed

lemma round_py_upper: "x \<le> of_int n / 100 \<Longrightarrow> round_py x 2 \<le> of_int n / 100"
proof -
  assume "x \<le> of_int n / 100"
  then have "x * 10 ^ 2 \<le> of_int n" by simp
  then have "round_half_even (x * 10 ^ 2) \<le> n" by (rule round_half_even_upper)
  then have "(of_int (round_half_even (x * 10 ^ 2)) :: rat) \<le> of_int n"
    by (simp only: of_int_le_iff)
  then show ?thesis by (simp add: round_py_def)
qed

section \<open>The hybrid calculation\<close>


lemma llm_component_empty: "llm_component (JObj []) k d = Inr d"
  by (simp add: llm_component_def dict_get_def get_default_def as_number_def)

lemma format_f_JNum: "format_f (JNum l) = Inr l"
  by (simp add: format_f_def as_number_def)





section \<open>The Gemini client\<close>

lemma cleaned_response_of_fenced:
  "cleaned_response_of ''  ```json {} ```  '' = ''{}''"
  "cleaned_response_of ''not json'' = ''not json''"
  by code_simp+

lemma analyze_wallet_risk_unavailable:
  "GEMINI_API_KEY env = None \<or> call_gemini_api env = None \<or> call_gemini_api env = Some []
   \<Longrightarrow> llm_risk_score_of (Inr (GeminiRiskAnalyzer_analyze_wallet_risk json_loads env)) = JNull"
  by (auto simp: GeminiRiskAnalyzer_analyze_wallet_risk_def llm_risk_score_of_def
      get_default_def split: option.splits)

lemma analyze_wallet_risk_unparsable:
  assumes "GEMINI_API_KEY env \<noteq> None" and "call_gemini_api env = Some response"
    and "response \<noteq> []" and "json_loads (cleaned_response_of response) = Inl msg"
  shows "GeminiRiskAnalyzer_analyze_wallet_risk json_loads env =
    [(''llm_risk_score'', JNum 50),
     (''reasoning'', JStr (''Gemini response could not be parsed: '' @ msg)),
     (''component_scores'', JObj []),
     (''raw_response'', JStr response)]"
  using assms
  by (simp add: GeminiRiskAnalyzer_analyze_wallet_risk_def
      GeminiRiskAnalyzer_parse_gemini_response_def)

lemma round_py_50: "round_py 50 2 = 50"
  by (simp add: round_py_def round_half_even_def)

lemma no_assets_score:
  assumes "eth_balance b = Some 0" and "tokens b = Some []"
  shows "risk_score (AssetConcentrationAnalyzer_calculate_risk b) = 90"
  using assms
  by (simp add: AssetConcentrationAnalyzer_calculate_risk_def
      AssetConcentrationAnalyzer_analyze_diversification_def
      AssetConcentrationAnalyzer_analyze_eth_holdings_def
      AssetConcentrationAnalyzer_analyze_token_composition_def
      get_default_def threshold_defs)

section \<open>The claims\<close>

text \<open>
  C1, as amended. Every analyzer returns a risk score between 0 and 100 (the protocol
  analyzer whenever it returns), and the rule-based overall score of every assessment
  lies between 0 and 100. The hybrid overall score and the LLM-based overall score lie
  between 0 and 100 provided the score of the LLM, when it is a number, lies between 0
  and 100 itself: the engine does not clamp what the LLM sends.
\<close>

theorem scores_within_bounds:
  "(0 \<le> risk_score (TransactionPatternAnalyzer_calculate_risk p)
     \<and> risk_score (TransactionPatternAnalyzer_calculate_risk p) \<le> 100)
   \<and> (\<forall>r. ProtocolRiskAnalyzer_calculate_risk pa = Inr r
          \<longrightarrow> 0 \<le> risk_score r \<and> risk_score r \<le> 100)
   \<and> (0 \<le> risk_score (AssetConcentrationAnalyzer_calculate_risk b)
     \<and> risk_score (AssetConcentrationAnalyzer_calculate_risk b) \<le> 100)
   \<and> (0 \<le> risk_score (BehavioralPatternAnalyzer_calculate_risk p)
     \<and> risk_score (BehavioralPatternAnalyzer_calculate_risk p) \<le> 100)
   \<and> (\<forall>a. calculate_overall_risk_score llm_call p pa b = Inr a \<longrightarrow>
          0 \<le> overall_score (rule_based (scoring_methods a))
          \<and> overall_score (rule_based (scoring_methods a)) \<le> 100
          \<and> ((\<forall>l. as_number (llm_risk_score_of llm_call) = Inr l \<longrightarrow> 0 \<le> l \<and> l \<le> 100)
               \<longrightarrow> 0 \<le> overall_risk_score a \<and> overall_risk_score a \<le> 100
                 \<and> 0 \<le> overall_score (hybrid (scoring_methods a))
                 \<and> overall_score (hybrid (scoring_methods a)) \<le> 100
                 \<and> (\<forall>s. overall_score (llm_based (scoring_methods a)) = Some s
                        \<longrightarrow> 0 \<le> s \<and> s \<le> 100)))"
proof (intro conjI allI impI)
  fix a
  assume run: "calculate_overall_risk_score llm_call p pa b = Inr a"
  from calculate_overall_risk_score_fields [OF run]
  obtain pr where pr: "ProtocolRiskAnalyzer_calculate_risk pa = Inr pr"
    and rb: "overall_score (rule_based (scoring_methods a)) =
      round_py (rule_based_risk (risk_score (TransactionPatternAnalyzer_calculate_risk p))
        (risk_score pr) (risk_score (AssetConcentrationAnalyzer_calculate_risk b))
        (risk_score (BehavioralPatternAnalyzer_calculate_risk p))) 2"
    and ov: "overall_risk_score a =
      round_py (fst (primary_scores (llm_risk_score_of llm_call)
        (llm_component_scores_of llm_call)
        (rule_based_risk (risk_score (TransactionPatternAnalyzer_calculate_risk p))
          (risk_score pr) (risk_score (AssetConcentrationAnalyzer_calculate_risk b))
          (risk_score (BehavioralPatternAnalyzer_calculate_risk p)))
        (risk_score (TransactionPatternAnalyzer_calculate_risk p))
        (risk_score pr) (risk_score (AssetConcentrationAnalyzer_calculate_risk b))
        (risk_score (BehavioralPatternAnalyzer_calculate_risk p)))) 2"
    and hy: "overall_score (hybrid (scoring_methods a)) = overall_risk_score a"
    and ll: "llm_based_score_and_level (llm_risk_score_of llm_call)
      = Inr (overall_score (llm_based (scoring_methods a)),
             report.risk_level (llm_based (scoring_methods a)))"
    by (auto simp: Let_def)
  have rule: "0 \<le> rule_based_risk (risk_score (TransactionPatternAnalyzer_calculate_risk p))
        (risk_score pr) (risk_score (AssetConcentrationAnalyzer_calculate_risk b))
        (risk_score (BehavioralPatternAnalyzer_calculate_risk p))
      \<and> rule_based_risk (risk_score (TransactionPatternAnalyzer_calculate_risk p))
        (risk_score pr) (risk_score (AssetConcentrationAnalyzer_calculate_risk b))
        (risk_score (BehavioralPatternAnalyzer_calculate_risk p)) \<le> 100"
    by (rule rule_based_risk_range
        [OF TransactionPatternAnalyzer_range ProtocolRiskAnalyzer_range [OF pr]
          AssetConcentrationAnalyzer_range BehavioralPatternAnalyzer_range])
  show "0 \<le> overall_score (rule_based (scoring_methods a))"
    and "overall_score (rule_based (scoring_methods a)) \<le> 100"
    using rule unfolding rb by (simp_all add: round_py_range)
  assume llm: "\<forall>l. as_number (llm_risk_score_of llm_call) = Inr l \<longrightarrow> 0 \<le> l \<and> l \<le> 100"
  have prim: "0 \<le> fst (primary_scores (llm_risk_score_of llm_call)
        (llm_component_scores_of llm_call)
        (rule_based_risk (risk_score (TransactionPatternAnalyzer_calculate_risk p))
          (risk_score pr) (risk_score (AssetConcentrationAnalyzer_calculate_risk b))
          (risk_score (BehavioralPatternAnalyzer_calculate_risk p)))
        (risk_score (TransactionPatternAnalyzer_calculate_risk p))
        (risk_score pr) (risk_score (AssetConcentrationAnalyzer_calculate_risk b))
        (risk_score (BehavioralPatternAnalyzer_calculate_risk p)))
      \<and> fst (primary_scores (llm_risk_score_of llm_call)
        (llm_component_scores_of llm_call)
        (rule_based_risk (risk_score (TransactionPatternAnalyzer_calculate_risk p))
          (risk_score pr) (risk_score (AssetConcentrationAnalyzer_calculate_risk b))
          (risk_score (BehavioralPatternAnalyzer_calculate_risk p)))
        (risk_score (TransactionPatternAnalyzer_calculate_risk p))
        (risk_score pr) (risk_score (AssetConcentrationAnalyzer_calculate_risk b))
        (risk_score (BehavioralPatternAnalyzer_calculate_risk p))) \<le> 100"
    using llm by (intro primary_scores_overall_range rule) blast
  show "0 \<le> overall_risk_score a" and "overall_risk_score a \<le> 100"
    using prim unfolding ov by (simp_all add: round_py_range)
  then show "0 \<le> overall_score (hybrid (scoring_methods a))"
    and "overall_score (hybrid (scoring_methods a)) \<le> 100"
    unfolding hy by simp_all
  fix s
  assume "overall_score (llm_based (scoring_methods a)) = Some s"
  with ll have "llm_based_score_and_level (llm_risk_score_of llm_call)
      = Inr (Some s, report.risk_level (llm_based (scoring_methods a)))"
    by simp
  from llm_based_score_range [OF this] llm show "0 \<le> s" and "s \<le> 100" by blast+
qed (simp_all add: TransactionPatternAnalyzer_range AssetConcentrationAnalyzer_range
      BehavioralPatternAnalyzer_range ProtocolRiskAnalyzer_range)


theorem scores_within_bounds_witness:
  "(\<exists>r. ProtocolRiskAnalyzer_calculate_risk risky_protocol_analysis = Inr r
        \<and> 0 \<le> risk_score r \<and> risk_score r \<le> 100)
   \<and> as_number (llm_risk_score_of (Inr llm_scores_80)) = Inr 80
   \<and> (\<exists>a. calculate_overall_risk_score (Inr llm_scores_80) active_patterns
              risky_protocol_analysis stable_balances = Inr a
          \<and> 0 \<le> overall_score (rule_based (scoring_methods a))
          \<and> overall_score (rule_based (scoring_methods a)) \<le> 100
          \<and> 0 \<le> overall_risk_score a \<and> overall_risk_score a \<le> 100
          \<and> overall_score (llm_based (scoring_methods a)) = Some 80)"
proof -
  obtain pr where pr: "ProtocolRiskAnalyzer_calculate_risk risky_protocol_analysis = Inr pr"
    using risky_protocol_score by blast
  have score: "llm_risk_score_of (Inr llm_scores_80) = JNum 80"
    by (simp add: llm_risk_score_of_def llm_scores_80_def get_default_def)
  have num: "as_number (llm_risk_score_of (Inr llm_scores_80)) = Inr 80"
    by (simp add: score as_number_def)
  have lvl: "llm_based_score_and_level (llm_risk_score_of (Inr llm_scores_80))
      = Inr (Some 80, ''VERY_HIGH'')"
    by (simp add: score llm_based_score_and_level_JNum round_py_def round_half_even_def
        get_risk_level_description_def)
  obtain a where a: "calculate_overall_risk_score (Inr llm_scores_80) active_patterns
      risky_protocol_analysis stable_balances = Inr a"
    using calculate_overall_risk_score_returns [OF pr lvl] by blast
  have s80: "overall_score (llm_based (scoring_methods a)) = Some 80"
    using calculate_overall_risk_score_fields [OF a] lvl by (auto simp: Let_def)
  have hyp: "\<forall>l. as_number (llm_risk_score_of (Inr llm_scores_80)) = Inr l
      \<longrightarrow> 0 \<le> l \<and> l \<le> 100"
    by (simp add: num)
  from scores_within_bounds
    [of active_patterns risky_protocol_analysis stable_balances "Inr llm_scores_80"]
    pr a hyp s80 num
  show ?thesis by blast
qed

text \<open>
  C1 as stated fails: with an LLM score of 500 on the wallet without data, the hybrid
  overall score is 233.3 and the LLM-based overall score is 500.
\<close>

theorem unclamped_llm_score_counterexample:
  "map_sum id overall_risk_score
     (calculate_overall_risk_score (Inr llm_scores_500) no_data_patterns
        no_defi_protocol_analysis empty_balances) = Inr (2333 / 10)
   \<and> \<not> (2333 / 10 \<le> (100 :: rat))
   \<and> map_sum id (overall_score \<circ> llm_based \<circ> scoring_methods)
     (calculate_overall_risk_score (Inr llm_scores_500) no_data_patterns
        no_defi_protocol_analysis empty_balances) = Inr (Some 500)"
  by code_simp



text \<open>
  C3. The rule-based overall score is the weighted sum of the four component scores with
  the weights 0.25, 0.30, 0.20 and 0.25, the last being the sum of the weights 0.15 of
  \<open>activity_frequency\<close> and 0.10 of \<open>failure_rate\<close>, which both multiply the behavioral
  score. Every assessment reports it rounded to two decimals, computed from the scores of
  the four analyzers on the inputs.
\<close>

theorem rule_based_weighted_sum:
  "rule_based_risk t q c h
     = t * (25 / 100) + q * (30 / 100) + c * (20 / 100) + h * (25 / 100)
   \<and> rule_based_risk t q c h
     = t * (25 / 100) + q * (30 / 100) + c * (20 / 100) + h * (15 / 100) + h * (10 / 100)
   \<and> getitem RISK_WEIGHTS ''activity_frequency'' = 15 / 100
   \<and> getitem RISK_WEIGHTS ''failure_rate'' = 10 / 100
   \<and> (\<forall>a. calculate_overall_risk_score llm_call p pa b = Inr a \<longrightarrow>
         transaction_analysis (detailed_analysis a) = TransactionPatternAnalyzer_calculate_risk p
         \<and> ProtocolRiskAnalyzer_calculate_risk pa = Inr (protocol_analysis (detailed_analysis a))
         \<and> concentration_analysis (detailed_analysis a)
             = AssetConcentrationAnalyzer_calculate_risk b
         \<and> behavioral_analysis (detailed_analysis a) = BehavioralPatternAnalyzer_calculate_risk p
         \<and> overall_score (rule_based (scoring_methods a))
             = round_py
                 (rule_based_risk
                    (risk_score (transaction_analysis (detailed_analysis a)))
                    (risk_score (protocol_analysis (detailed_analysis a)))
                    (risk_score (concentration_analysis (detailed_analysis a)))
                    (risk_score (behavioral_analysis (detailed_analysis a)))) 2)"
proof (intro conjI allI impI)
  fix a
  assume run: "calculate_overall_risk_score llm_call p pa b = Inr a"
  from calculate_overall_risk_score_fields [OF run]
  obtain pr where pr: "ProtocolRiskAnalyzer_calculate_risk pa = Inr pr"
    and da: "detailed_analysis a =
          \<lparr>transaction_analysis = TransactionPatternAnalyzer_calculate_risk p,
           protocol_analysis = pr,
           concentration_analysis = AssetConcentrationAnalyzer_calculate_risk b,
           behavioral_analysis = BehavioralPatternAnalyzer_calculate_risk p,
           llm_analysis = llm_result_of llm_call\<rparr>"
    and rb: "overall_score (rule_based (scoring_methods a)) =
      round_py (rule_based_risk (risk_score (TransactionPatternAnalyzer_calculate_risk p))
        (risk_score pr) (risk_score (AssetConcentrationAnalyzer_calculate_risk b))
        (risk_score (BehavioralPatternAnalyzer_calculate_risk p))) 2"
    by (auto simp: Let_def)
  show "transaction_analysis (detailed_analysis a) = TransactionPatternAnalyzer_calculate_risk p"
    and "ProtocolRiskAnalyzer_calculate_risk pa = Inr (protocol_analysis (detailed_analysis a))"
    and "concentration_analysis (detailed_analysis a)
           = AssetConcentrationAnalyzer_calculate_risk b"
    and "behavioral_analysis (detailed_analysis a) = BehavioralPatternAnalyzer_calculate_risk p"
    by (simp_all add: da pr)
  show "overall_score (rule_based (scoring_methods a))
             = round_py
                 (rule_based_risk
                    (risk_score (transaction_analysis (detailed_analysis a)))
                    (risk_score (protocol_analysis (detailed_analysis a)))
                    (risk_score (concentration_analysis (detailed_analysis a)))
                    (risk_score (behavioral_analysis (detailed_analysis a)))) 2"
    by (simp add: da rb)
qed (simp_all add: rule_based_risk_eq RISK_WEIGHTS_items)

theorem rule_based_weighted_sum_witness:
  "\<exists>a. calculate_overall_risk_score (Inr llm_unavailable) active_patterns
          risky_protocol_analysis stable_balances = Inr a
      \<and> risk_score (transaction_analysis (detailed_analysis a)) = 100
      \<and> risk_score (protocol_analysis (detailed_analysis a)) = 145 / 2
      \<and> risk_score (concentration_analysis (detailed_analysis a)) = 40
      \<and> risk_score (behavioral_analysis (detailed_analysis a)) = 100
      \<and> overall_score (rule_based (scoring_methods a)) = 319 / 4"
proof -
  obtain pr where pr: "ProtocolRiskAnalyzer_calculate_risk risky_protocol_analysis = Inr pr"
    and prs: "risk_score pr = 145 / 2"
    using risky_protocol_score by blast
  have score: "llm_risk_score_of (Inr llm_unavailable) = JNull"
    by (simp add: llm_risk_score_of_def llm_unavailable_def get_default_def)
  have lvl: "llm_based_score_and_level (llm_risk_score_of (Inr llm_unavailable))
      = Inr (None, ''N/A'')"
    by (simp add: score)
  obtain a where a: "calculate_overall_risk_score (Inr llm_unavailable) active_patterns
      risky_protocol_analysis stable_balances = Inr a"
    using calculate_overall_risk_score_returns [OF pr lvl] by blast
  have r: "round_py (319 / 4) 2 = 319 / 4"
    by (simp add: round_py_def round_half_even_def)
  have rv: "rule_based_risk 100 (145 / 2) 40 100 = 319 / 4"
    by (simp add: rule_based_risk_eq)
  from rule_based_weighted_sum
    [of 100 "145 / 2" 40 100 "Inr llm_unavailable" active_patterns risky_protocol_analysis
      stable_balances] a
  have ta: "transaction_analysis (detailed_analysis a)
        = TransactionPatternAnalyzer_calculate_risk active_patterns"
    and pq: "ProtocolRiskAnalyzer_calculate_risk risky_protocol_analysis
        = Inr (protocol_analysis (detailed_analysis a))"
    and ca: "concentration_analysis (detailed_analysis a)
        = AssetConcentrationAnalyzer_calculate_risk stable_balances"
    and ba: "behavioral_analysis (detailed_analysis a)
        = BehavioralPatternAnalyzer_calculate_risk active_patterns"
    and ov: "overall_score (rule_based (scoring_methods a))
        = round_py
            (rule_based_risk
               (risk_score (transaction_analysis (detailed_analysis a)))
               (risk_score (protocol_analysis (detailed_analysis a)))
               (risk_score (concentration_analysis (detailed_analysis a)))
               (risk_score (behavioral_analysis (detailed_analysis a)))) 2"
    by blast+
  from pq pr have pe: "protocol_analysis (detailed_analysis a) = pr" by simp
  show ?thesis
    by (rule exI [of _ a])
      (simp add: a ov ta ca ba pe prs active_transaction_score active_behavioral_score
        stable_balances_score rv r)
qed

text \<open>
  C4. When the LLM collaborator reports no score (\<open>llm_risk_score\<close> is \<open>None\<close>) and the
  analyzers return, the engine returns an assessment whose hybrid overall score, hybrid
  component scores and level are those of the rule-based report, and whose LLM-based
  overall score is \<open>None\<close>.
\<close>

theorem unavailable_llm_falls_back_to_rule_based:
  assumes "ProtocolRiskAnalyzer_calculate_risk pa = Inr pr"
    and "llm_risk_score_of llm_call = JNull"
  shows "\<exists>a. calculate_overall_risk_score llm_call p pa b = Inr a
    \<and> overall_risk_score a = overall_score (rule_based (scoring_methods a))
    \<and> component_scores a = components (rule_based (scoring_methods a))
    \<and> risk_assessment.risk_level a = report.risk_level (rule_based (scoring_methods a))
    \<and> overall_score (hybrid (scoring_methods a))
        = overall_score (rule_based (scoring_methods a))
    \<and> components (hybrid (scoring_methods a)) = components (rule_based (scoring_methods a))
    \<and> report.risk_level (hybrid (scoring_methods a))
        = report.risk_level (rule_based (scoring_methods a))
    \<and> methodology (hybrid (scoring_methods a)) = [Lit ''100% rule-based (Gemini unavailable)'']
    \<and> overall_score (llm_based (scoring_methods a)) = None
    \<and> report.risk_level (llm_based (scoring_methods a)) = ''N/A''"
proof -
  have lvl: "llm_based_score_and_level (llm_risk_score_of llm_call) = Inr (None, ''N/A'')"
    by (simp add: assms(2))
  obtain a where a: "calculate_overall_risk_score llm_call p pa b = Inr a"
    using calculate_overall_risk_score_returns [OF assms(1) lvl] by blast
  from calculate_overall_risk_score_fields [OF a] assms a
  show ?thesis
    by (intro exI [of _ a]) (auto simp: Let_def primary_scores_JNull truthy_def)
qed

theorem unavailable_llm_falls_back_to_rule_based_witness:
  "ProtocolRiskAnalyzer_calculate_risk no_defi_protocol_analysis
     = Inr \<lparr>risk_score = 0, reasons = [[Lit ''No DeFi protocol interactions - Low Risk'']],
            metrics = Some []\<rparr>
   \<and> llm_risk_score_of (Inr (GeminiRiskAnalyzer_analyze_wallet_risk rejecting_json_loads
        no_key_env)) = JNull
   \<and> (\<exists>a. calculate_overall_risk_score
            (Inr (GeminiRiskAnalyzer_analyze_wallet_risk rejecting_json_loads no_key_env))
            no_data_patterns no_defi_protocol_analysis empty_balances = Inr a
        \<and> overall_risk_score a = overall_score (rule_based (scoring_methods a))
        \<and> component_scores a = components (rule_based (scoring_methods a))
        \<and> overall_score (llm_based (scoring_methods a)) = None)"
proof -
  have score: "llm_risk_score_of (Inr (GeminiRiskAnalyzer_analyze_wallet_risk
      rejecting_json_loads no_key_env)) = JNull"
    by (simp add: llm_risk_score_of_def GeminiRiskAnalyzer_analyze_wallet_risk_def
        no_key_env_def get_default_def)
  from unavailable_llm_falls_back_to_rule_based [OF no_defi_result score,
      of no_data_patterns empty_balances] no_defi_result score
  show ?thesis by blast
qed

text \<open>
  C5, as amended. A missing credential and a failed or empty API call make the client
  return no score, and the engine then reports the rule-based score as the overall score.
  A response that \<open>json.loads\<close> rejects is handled differently: the client returns the
  default score 50 with no component scores, and the engine blends it, so that the
  overall score is 0.6 times the rule-based score plus 0.4 times 50, the component scores
  stay the rule-based ones, and the LLM-based overall score is reported as 50.
\<close>

theorem unparsable_response_scores_50:
  "(GEMINI_API_KEY env = None \<or> call_gemini_api env = None \<or> call_gemini_api env = Some []
     \<longrightarrow> llm_risk_score_of (Inr (GeminiRiskAnalyzer_analyze_wallet_risk json_loads env)) = JNull
       \<and> (\<forall>pr. ProtocolRiskAnalyzer_calculate_risk pa = Inr pr \<longrightarrow>
            (\<exists>a. calculate_overall_risk_score
                    (Inr (GeminiRiskAnalyzer_analyze_wallet_risk json_loads env)) p pa b = Inr a
                \<and> overall_risk_score a = overall_score (rule_based (scoring_methods a))
                \<and> overall_score (llm_based (scoring_methods a)) = None)))
   \<and> (GEMINI_API_KEY env \<noteq> None \<and> call_gemini_api env = Some response \<and> response \<noteq> []
       \<and> json_loads (cleaned_response_of response) = Inl msg
     \<longrightarrow> llm_risk_score_of (Inr (GeminiRiskAnalyzer_analyze_wallet_risk json_loads env))
           = JNum 50
       \<and> llm_component_scores_of (Inr (GeminiRiskAnalyzer_analyze_wallet_risk json_loads env))
           = JObj []
       \<and> (\<forall>pr. ProtocolRiskAnalyzer_calculate_risk pa = Inr pr \<longrightarrow>
            (\<exists>a. calculate_overall_risk_score
                    (Inr (GeminiRiskAnalyzer_analyze_wallet_risk json_loads env)) p pa b = Inr a
                \<and> overall_risk_score a
                    = round_py
                        (6 / 10 * rule_based_risk
                           (risk_score (TransactionPatternAnalyzer_calculate_risk p))
                           (risk_score pr)
                           (risk_score (AssetConcentrationAnalyzer_calculate_risk b))
                           (risk_score (BehavioralPatternAnalyzer_calculate_risk p))
                         + 4 / 10 * 50) 2
                \<and> component_scores a = components (rule_based (scoring_methods a))
                \<and> overall_score (llm_based (scoring_methods a)) = Some 50)))"
proof (intro conjI impI allI)
  assume un: "GEMINI_API_KEY env = None \<or> call_gemini_api env = None
    \<or> call_gemini_api env = Some []"
  show ls: "llm_risk_score_of (Inr (GeminiRiskAnalyzer_analyze_wallet_risk json_loads env))
      = JNull"
    by (rule analyze_wallet_risk_unavailable [OF un])
  fix pr
  assume pr: "ProtocolRiskAnalyzer_calculate_risk pa = Inr pr"
  have lvl: "llm_based_score_and_level
      (llm_risk_score_of (Inr (GeminiRiskAnalyzer_analyze_wallet_risk json_loads env)))
      = Inr (None, ''N/A'')"
    by (simp add: ls)
  obtain a where a: "calculate_overall_risk_score
      (Inr (GeminiRiskAnalyzer_analyze_wallet_risk json_loads env)) p pa b = Inr a"
    using calculate_overall_risk_score_returns [OF pr lvl] by blast
  from calculate_overall_risk_score_fields [OF a] pr ls a
  show "\<exists>a. calculate_overall_risk_score
           (Inr (GeminiRiskAnalyzer_analyze_wallet_risk json_loads env)) p pa b = Inr a
       \<and> overall_risk_score a = overall_score (rule_based (scoring_methods a))
       \<and> overall_score (llm_based (scoring_methods a)) = None"
    by (intro exI [of _ a]) (auto simp: Let_def primary_scores_JNull)
next
  assume h: "GEMINI_API_KEY env \<noteq> None \<and> call_gemini_api env = Some response
    \<and> response \<noteq> [] \<and> json_loads (cleaned_response_of response) = Inl msg"
  then have res: "GeminiRiskAnalyzer_analyze_wallet_risk json_loads env =
    [(''llm_risk_score'', JNum 50),
     (''reasoning'', JStr (''Gemini response could not be parsed: '' @ msg)),
     (''component_scores'', JObj []),
     (''raw_response'', JStr response)]"
    by (intro analyze_wallet_risk_unparsable) simp_all
  show ls: "llm_risk_score_of (Inr (GeminiRiskAnalyzer_analyze_wallet_risk json_loads env))
      = JNum 50"
    by (simp add: res llm_risk_score_of_def get_default_def)
  show cs: "llm_component_scores_of
      (Inr (GeminiRiskAnalyzer_analyze_wallet_risk json_loads env)) = JObj []"
    by (simp add: res llm_component_scores_of_def get_default_def)
  fix pr
  assume pr: "ProtocolRiskAnalyzer_calculate_risk pa = Inr pr"
  have lvl: "llm_based_score_and_level
      (llm_risk_score_of (Inr (GeminiRiskAnalyzer_analyze_wallet_risk json_loads env)))
      = Inr (Some 50, fst (get_risk_level_description 50))"
    by (simp add: ls llm_based_score_and_level_JNum round_py_50)
  obtain a where a: "calculate_overall_risk_score
      (Inr (GeminiRiskAnalyzer_analyze_wallet_risk json_loads env)) p pa b = Inr a"
    using calculate_overall_risk_score_returns [OF pr lvl] by blast
  have ps: "primary_scores (JNum 50) (JObj [])
      (rule_based_risk (risk_score (TransactionPatternAnalyzer_calculate_risk p))
         (risk_score pr) (risk_score (AssetConcentrationAnalyzer_calculate_risk b))
         (risk_score (BehavioralPatternAnalyzer_calculate_risk p)))
      (risk_score (TransactionPatternAnalyzer_calculate_risk p)) (risk_score pr)
      (risk_score (AssetConcentrationAnalyzer_calculate_risk b))
      (risk_score (BehavioralPatternAnalyzer_calculate_risk p))
    = (6 / 10 * rule_based_risk (risk_score (TransactionPatternAnalyzer_calculate_risk p))
         (risk_score pr) (risk_score (AssetConcentrationAnalyzer_calculate_risk b))
         (risk_score (BehavioralPatternAnalyzer_calculate_risk p)) + 4 / 10 * 50,
       \<lparr>transaction_patterns = risk_score (TransactionPatternAnalyzer_calculate_risk p),
        protocol_interactions = risk_score pr,
        asset_concentration = risk_score (AssetConcentrationAnalyzer_calculate_risk b),
        behavioral_patterns = risk_score (BehavioralPatternAnalyzer_calculate_risk p)\<rparr>)"
    by (simp add: primary_scores_blend [OF _ format_f_JNum llm_component_empty
          llm_component_empty llm_component_empty llm_component_empty])
  from calculate_overall_risk_score_fields [OF a] pr lvl a
  show "\<exists>a. calculate_overall_risk_score
           (Inr (GeminiRiskAnalyzer_analyze_wallet_risk json_loads env)) p pa b = Inr a
       \<and> overall_risk_score a
           = round_py
               (6 / 10 * rule_based_risk
                  (risk_score (TransactionPatternAnalyzer_calculate_risk p))
                  (risk_score pr)
                  (risk_score (AssetConcentrationAnalyzer_calculate_risk b))
                  (risk_score (BehavioralPatternAnalyzer_calculate_risk p))
                + 4 / 10 * 50) 2
       \<and> component_scores a = components (rule_based (scoring_methods a))
       \<and> overall_score (llm_based (scoring_methods a)) = Some 50"
    by (intro exI [of _ a]) (auto simp: Let_def ls cs ps)
qed

theorem unparsable_response_scores_50_witness:
  "GEMINI_API_KEY unparsable_env \<noteq> None
   \<and> call_gemini_api unparsable_env = Some ''I cannot assess this wallet.''
   \<and> ''I cannot assess this wallet.'' \<noteq> []
   \<and> rejecting_json_loads (cleaned_response_of ''I cannot assess this wallet.'')
       = Inl ''Expecting value: line 1 column 1 (char 0)''
   \<and> llm_risk_score_of
        (Inr (GeminiRiskAnalyzer_analyze_wallet_risk rejecting_json_loads unparsable_env))
       = JNum 50
   \<and> (\<exists>a. calculate_overall_risk_score
            (Inr (GeminiRiskAnalyzer_analyze_wallet_risk rejecting_json_loads unparsable_env))
            no_data_patterns no_defi_protocol_analysis empty_balances = Inr a
         \<and> overall_risk_score a = round_py (6 / 10 * rule_based_risk 90 0 90 60 + 4 / 10 * 50) 2
         \<and> overall_score (llm_based (scoring_methods a)) = Some 50)
   \<and> GEMINI_API_KEY no_key_env = None
   \<and> llm_risk_score_of
        (Inr (GeminiRiskAnalyzer_analyze_wallet_risk rejecting_json_loads no_key_env)) = JNull"
proof -
  have prem: "GEMINI_API_KEY unparsable_env \<noteq> None
     \<and> call_gemini_api unparsable_env = Some ''I cannot assess this wallet.''
     \<and> ''I cannot assess this wallet.'' \<noteq> []
     \<and> rejecting_json_loads (cleaned_response_of ''I cannot assess this wallet.'')
         = Inl ''Expecting value: line 1 column 1 (char 0)''"
    by (simp add: unparsable_env_def rejecting_json_loads_def)
  have nokey: "GEMINI_API_KEY no_key_env = None" by (simp add: no_key_env_def)
  note thm1 = unparsable_response_scores_50
    [of unparsable_env rejecting_json_loads no_defi_protocol_analysis no_data_patterns
      empty_balances "''I cannot assess this wallet.''"
      "''Expecting value: line 1 column 1 (char 0)''"]
  note thm2 = unparsable_response_scores_50
    [of no_key_env rejecting_json_loads no_defi_protocol_analysis no_data_patterns
      empty_balances "''''" "''''"]
  from thm1 prem have ls: "llm_risk_score_of
        (Inr (GeminiRiskAnalyzer_analyze_wallet_risk rejecting_json_loads unparsable_env))
       = JNum 50"
    by blast
  from thm1 prem no_defi_result
  obtain a where "calculate_overall_risk_score
            (Inr (GeminiRiskAnalyzer_analyze_wallet_risk rejecting_json_loads unparsable_env))
            no_data_patterns no_defi_protocol_analysis empty_balances = Inr a"
    and "overall_risk_score a
      = round_py
          (6 / 10 * rule_based_risk
             (risk_score (TransactionPatternAnalyzer_calculate_risk no_data_patterns))
             (risk_score \<lparr>risk_score = 0,
                reasons = [[Lit ''No DeFi protocol interactions - Low Risk'']],
                metrics = Some []\<rparr>)
             (risk_score (AssetConcentrationAnalyzer_calculate_risk empty_balances))
             (risk_score (BehavioralPatternAnalyzer_calculate_risk no_data_patterns))
           + 4 / 10 * 50) 2"
    and "overall_score (llm_based (scoring_methods a)) = Some 50"
    by blast
  then have ex: "\<exists>a. calculate_overall_risk_score
            (Inr (GeminiRiskAnalyzer_analyze_wallet_risk rejecting_json_loads unparsable_env))
            no_data_patterns no_defi_protocol_analysis empty_balances = Inr a
         \<and> overall_risk_score a = round_py (6 / 10 * rule_based_risk 90 0 90 60 + 4 / 10 * 50) 2
         \<and> overall_score (llm_based (scoring_methods a)) = Some 50"
    by (intro exI [of _ a]) (simp add: no_data_scores empty_balances_score)
  from thm2 nokey have "llm_risk_score_of
        (Inr (GeminiRiskAnalyzer_analyze_wallet_risk rejecting_json_loads no_key_env)) = JNull"
    by blast
  with prem ls ex nokey show ?thesis by blast
qed

text \<open>
  C5 as stated fails: for a response that is not JSON the client returns the score 50, and
  on the wallet without data the overall score is 53.3 where the rule-based score is 55.5.
\<close>

theorem unparsable_response_counterexample:
  "llm_risk_score_of
     (Inr (GeminiRiskAnalyzer_analyze_wallet_risk rejecting_json_loads unparsable_env))
     = JNum 50
   \<and> map_sum id overall_risk_score
       (calculate_overall_risk_score
          (Inr (GeminiRiskAnalyzer_analyze_wallet_risk rejecting_json_loads unparsable_env))
          no_data_patterns no_defi_protocol_analysis empty_balances) = Inr (533 / 10)
   \<and> map_sum id (overall_score \<circ> rule_based \<circ> scoring_methods)
       (calculate_overall_risk_score
          (Inr (GeminiRiskAnalyzer_analyze_wallet_risk rejecting_json_loads unparsable_env))
          no_data_patterns no_defi_protocol_analysis empty_balances) = Inr (111 / 2)
   \<and> map_sum id (overall_score \<circ> llm_based \<circ> scoring_methods)
       (calculate_overall_risk_score
          (Inr (GeminiRiskAnalyzer_analyze_wallet_risk rejecting_json_loads unparsable_env))
          no_data_patterns no_defi_protocol_analysis empty_balances) = Inr (Some 50)"
  by code_simp

text \<open>
  C6, as amended. For patterns without an error marker and with \<open>total_transactions\<close> 0,
  an empty protocol list, an empty token list and an ETH balance of 0: the transaction
  score is 90, the protocol score 0 and the concentration score 90 (base 50, plus 30 for
  no assets, plus 10 for the very low ETH balance, which fires as well). The behavioral
  analyzer takes its regular path, not its error fallback, and the rule-based overall
  score is 40.5 plus a quarter of the behavioral score, hence between 40.5 and 65.5. On
  the input with no other field the behavioral score is 45 and the overall score 51.75.
\<close>

theorem empty_wallet_scenario:
  "(error p = None \<and> total_transactions p = Some 0 \<and> protocols pa = Some []
     \<and> eth_balance b = Some 0 \<and> tokens b = Some []
    \<longrightarrow> risk_score (TransactionPatternAnalyzer_calculate_risk p) = 90
      \<and> (\<exists>r. ProtocolRiskAnalyzer_calculate_risk pa = Inr r \<and> risk_score r = 0)
      \<and> risk_score (AssetConcentrationAnalyzer_calculate_risk b) = 90
      \<and> (\<exists>a. calculate_overall_risk_score (Inr llm_unavailable) p pa b = Inr a
            \<and> overall_score (rule_based (scoring_methods a))
                = round_py (81 / 2
                    + risk_score (BehavioralPatternAnalyzer_calculate_risk p) / 4) 2
            \<and> 81 / 2 \<le> overall_score (rule_based (scoring_methods a))
            \<and> overall_score (rule_based (scoring_methods a)) \<le> 131 / 2))
   \<and> risk_score (BehavioralPatternAnalyzer_calculate_risk zero_transactions_patterns) = 45
   \<and> rule_based_risk 90 0 90 45 = 207 / 4"
proof (intro conjI impI)
  assume h: "error p = None \<and> total_transactions p = Some 0 \<and> protocols pa = Some []
     \<and> eth_balance b = Some 0 \<and> tokens b = Some []"
  show t: "risk_score (TransactionPatternAnalyzer_calculate_risk p) = 90"
    using h by (simp add: TransactionPatternAnalyzer_calculate_risk_def get_default_def)
  obtain pr where pr: "ProtocolRiskAnalyzer_calculate_risk pa = Inr pr"
    and prs: "risk_score pr = 0"
    using h by (auto simp: ProtocolRiskAnalyzer_calculate_risk_def)
  then show "\<exists>r. ProtocolRiskAnalyzer_calculate_risk pa = Inr r \<and> risk_score r = 0"
    by blast
  show c: "risk_score (AssetConcentrationAnalyzer_calculate_risk b) = 90"
    using h by (simp add: no_assets_score)
  have ls: "llm_risk_score_of (Inr llm_unavailable) = JNull"
    by (simp add: llm_risk_score_of_def llm_unavailable_def get_default_def)
  have lvl: "llm_based_score_and_level (llm_risk_score_of (Inr llm_unavailable))
      = Inr (None, ''N/A'')"
    by (simp add: ls)
  obtain a where a: "calculate_overall_risk_score (Inr llm_unavailable) p pa b = Inr a"
    using calculate_overall_risk_score_returns [OF pr lvl] by blast
  have rule: "rule_based_risk 90 0 90 (risk_score (BehavioralPatternAnalyzer_calculate_risk p))
      = 81 / 2 + risk_score (BehavioralPatternAnalyzer_calculate_risk p) / 4"
    by (simp add: rule_based_risk_eq)
  from calculate_overall_risk_score_fields [OF a] pr prs t c rule
  have ov: "overall_score (rule_based (scoring_methods a))
      = round_py (81 / 2 + risk_score (BehavioralPatternAnalyzer_calculate_risk p) / 4) 2"
    by (auto simp: Let_def)
  have lo: "of_int 4050 / 100
      \<le> 81 / 2 + risk_score (BehavioralPatternAnalyzer_calculate_risk p) / 4"
    and hi: "81 / 2 + risk_score (BehavioralPatternAnalyzer_calculate_risk p) / 4
      \<le> of_int 6550 / 100"
    using BehavioralPatternAnalyzer_range [of p] by simp_all
  from round_py_lower [OF lo] round_py_upper [OF hi]
  have "81 / 2 \<le> overall_score (rule_based (scoring_methods a))
      \<and> overall_score (rule_based (scoring_methods a)) \<le> 131 / 2"
    unfolding ov by simp
  with a ov
  show "\<exists>a. calculate_overall_risk_score (Inr llm_unavailable) p pa b = Inr a
      \<and> overall_score (rule_based (scoring_methods a))
          = round_py (81 / 2 + risk_score (BehavioralPatternAnalyzer_calculate_risk p) / 4) 2
      \<and> 81 / 2 \<le> overall_score (rule_based (scoring_methods a))
      \<and> overall_score (rule_based (scoring_methods a)) \<le> 131 / 2"
    by blast
qed (simp_all add: zero_transactions_scores rule_based_risk_eq)

theorem empty_wallet_scenario_witness:
  "error zero_transactions_patterns = None
   \<and> total_transactions zero_transactions_patterns = Some 0
   \<and> protocols no_defi_protocol_analysis = Some []
   \<and> eth_balance empty_balances = Some 0 \<and> tokens empty_balances = Some []
   \<and> risk_score (TransactionPatternAnalyzer_calculate_risk zero_transactions_patterns) = 90
   \<and> risk_score (AssetConcentrationAnalyzer_calculate_risk empty_balances) = 90
   \<and> (\<exists>a. calculate_overall_risk_score (Inr llm_unavailable) zero_transactions_patterns
             no_defi_protocol_analysis empty_balances = Inr a
         \<and> overall_score (rule_based (scoring_methods a)) = 207 / 4)"
proof -
  have prem: "error zero_transactions_patterns = None
     \<and> total_transactions zero_transactions_patterns = Some 0
     \<and> protocols no_defi_protocol_analysis = Some []
     \<and> eth_balance empty_balances = Some 0 \<and> tokens empty_balances = Some []"
    by (simp add: zero_transactions_patterns_def no_data_patterns_def
        no_defi_protocol_analysis_def empty_balances_def)
  have r: "round_py (81 / 2 + 45 / 4) 2 = 207 / 4"
    by (simp add: round_py_def round_half_even_def)
  from empty_wallet_scenario
    [of zero_transactions_patterns no_defi_protocol_analysis empty_balances] prem
  have t: "risk_score (TransactionPatternAnalyzer_calculate_risk zero_transactions_patterns)
      = 90"
    and c: "risk_score (AssetConcentrationAnalyzer_calculate_risk empty_balances) = 90"
    and "\<exists>a. calculate_overall_risk_score (Inr llm_unavailable) zero_transactions_patterns
             no_defi_protocol_analysis empty_balances = Inr a
         \<and> overall_score (rule_based (scoring_methods a))
             = round_py (81 / 2 + risk_score (BehavioralPatternAnalyzer_calculate_risk
                 zero_transactions_patterns) / 4) 2"
    by blast+
  then obtain a where a: "calculate_overall_risk_score (Inr llm_unavailable)
             zero_transactions_patterns no_defi_protocol_analysis empty_balances = Inr a"
    and ov: "overall_score (rule_based (scoring_methods a))
             = round_py (81 / 2 + risk_score (BehavioralPatternAnalyzer_calculate_risk
                 zero_transactions_patterns) / 4) 2"
    by blast
  have "overall_score (rule_based (scoring_methods a)) = 207 / 4"
    unfolding ov zero_transactions_scores by (rule r)
  with a have "\<exists>a. calculate_overall_risk_score (Inr llm_unavailable)
             zero_transactions_patterns no_defi_protocol_analysis empty_balances = Inr a
         \<and> overall_score (rule_based (scoring_methods a)) = 207 / 4"
    by blast
  with prem t c show ?thesis by blast
qed

text \<open>
  C6 as stated fails: on that input the concentration score is 90, not 50 + 30, and the
  behavioral score is 45, where the fallback of the error path is 60.
\<close>

theorem empty_wallet_counterexample:
  "total_transactions zero_transactions_patterns = Some 0
   \<and> error zero_transactions_patterns = None
   \<and> eth_balance empty_balances = Some 0 \<and> tokens empty_balances = Some []
   \<and> risk_score (AssetConcentrationAnalyzer_calculate_risk empty_balances) = 90
   \<and> risk_score (AssetConcentrationAnalyzer_calculate_risk empty_balances) \<noteq> 50 + 30
   \<and> risk_score (BehavioralPatternAnalyzer_calculate_risk zero_transactions_patterns) = 45
   \<and> risk_score (BehavioralPatternAnalyzer_calculate_risk no_data_patterns) = 60"
  by code_simp

text \<open>
  C7. For every protocol analysis whose protocol list is empty or absent,
  \<open>ProtocolRiskAnalyzer.calculate_risk\<close> returns, and its risk score is exactly 0,
  whatever the other fields hold.
\<close>

theorem no_protocols_score_zero:
  assumes "protocols pa = None \<or> protocols pa = Some []"
  shows "\<exists>r. ProtocolRiskAnalyzer_calculate_risk pa = Inr r \<and> risk_score r = 0"
  using assms by (auto simp: ProtocolRiskAnalyzer_calculate_risk_def)

theorem no_protocols_score_zero_witness:
  "(protocols (risky_protocol_analysis\<lparr>protocols := Some []\<rparr>) = None
    \<or> protocols (risky_protocol_analysis\<lparr>protocols := Some []\<rparr>) = Some [])
   \<and> (\<exists>r. ProtocolRiskAnalyzer_calculate_risk (risky_protocol_analysis\<lparr>protocols := Some []\<rparr>)
            = Inr r \<and> risk_score r = 0)"
  using no_protocols_score_zero [of "risky_protocol_analysis\<lparr>protocols := Some []\<rparr>"]
  by simp

text \<open>
  C8. A patterns input without an error marker whose \<open>total_transactions\<close> is 0 gets the
  transaction score 90 with the reason of the inactive wallet; an input with an error
  marker gets 90 as well, with the reason that no transaction data is available; the two
  reasons differ.
\<close>

theorem zero_transactions_score_90:
  "(error p = None \<and> total_transactions p = Some 0 \<longrightarrow>
      risk_score (TransactionPatternAnalyzer_calculate_risk p) = 90
      \<and> reasons (TransactionPatternAnalyzer_calculate_risk p)
          = [[Lit ''Inactive wallet - no transactions'']])
   \<and> (error p \<noteq> None \<longrightarrow>
      risk_score (TransactionPatternAnalyzer_calculate_risk p) = 90
      \<and> reasons (TransactionPatternAnalyzer_calculate_risk p)
          = [[Lit ''No transaction data available'']])
   \<and> [[Lit ''Inactive wallet - no transactions'']] \<noteq> [[Lit ''No transaction data available'']]"
  by (simp add: TransactionPatternAnalyzer_calculate_risk_def get_default_def)

theorem zero_transactions_score_90_witness:
  "error zero_transactions_patterns = None
   \<and> total_transactions zero_transactions_patterns = Some 0
   \<and> risk_score (TransactionPatternAnalyzer_calculate_risk zero_transactions_patterns) = 90
   \<and> reasons (TransactionPatternAnalyzer_calculate_risk zero_transactions_patterns)
       = [[Lit ''Inactive wallet - no transactions'']]
   \<and> error (active_patterns\<lparr>error := Some ''No transaction data available''\<rparr>) \<noteq> None
   \<and> risk_score (TransactionPatternAnalyzer_calculate_risk
        (active_patterns\<lparr>error := Some ''No transaction data available''\<rparr>)) = 90
   \<and> reasons (TransactionPatternAnalyzer_calculate_risk
        (active_patterns\<lparr>error := Some ''No transaction data available''\<rparr>))
       = [[Lit ''No transaction data available'']]"
  using zero_transactions_score_90 [of zero_transactions_patterns]
    zero_transactions_score_90
      [of "active_patterns\<lparr>error := Some ''No transaction data available''\<rparr>"]
  by (simp add: zero_transactions_patterns_def no_data_patterns_def)

text \<open>
  C9. The claim is that every result of every analyzer has the three keys \<open>risk_score\<close>,
  \<open>reasons\<close> and \<open>metrics\<close>. The two early returns of the transaction analyzer (error
  marker, zero transactions) produce a dictionary without \<open>metrics\<close>, where the early
  returns of the behavioral and protocol analyzers carry an empty \<open>metrics\<close>.
\<close>

theorem transaction_early_returns_have_no_metrics:
  "metrics (TransactionPatternAnalyzer_calculate_risk no_data_patterns) = None
   \<and> metrics (TransactionPatternAnalyzer_calculate_risk zero_transactions_patterns) = None
   \<and> metrics (BehavioralPatternAnalyzer_calculate_risk no_data_patterns) = Some []
   \<and> ProtocolRiskAnalyzer_calculate_risk no_defi_protocol_analysis
       = Inr \<lparr>risk_score = 0, reasons = [[Lit ''No DeFi protocol interactions - Low Risk'']],
              metrics = Some []\<rparr>"
  by (simp add: TransactionPatternAnalyzer_calculate_risk_def
      BehavioralPatternAnalyzer_calculate_risk_def ProtocolRiskAnalyzer_calculate_risk_def
      no_data_patterns_def zero_transactions_patterns_def no_defi_protocol_analysis_def
      get_default_def)



end
